theory Spec2Isabelle
  imports Complex_Main "HOL-Library.AList"
begin

section \<open>Values, strings and errors\<close>

text \<open>
  The backend is Python. Its exceptions are values of \<open>error\<close>; a call that may raise
  returns \<open>error + 'a\<close> with \<open>Inl\<close> for the exception. Python floats are represented by
  exact rationals (\<open>rat\<close>): the programme only adds, doubles, divides by ten and takes
  minima. Strings are byte lists in UTF-8, so the Korean literals of the source are
  written out byte by byte.
\<close>

datatype error = KeyError | IndexError | ValueError | AttributeError | TypeError
  | ZeroDivisionError

text \<open>
  A response is \<open>Any\<close> in the source; the values a questionnaire produces are a text or a
  single selection, a boolean, a list of selections, a number or nothing.
\<close>

datatype pyval = VStr string | VBool bool | VList "string list" | VInt int | VNone

text \<open>Python truthiness, as used by \<open>if question and response.response\<close>.\<close>

fun truthy :: "pyval \<Rightarrow> bool" where
  "truthy (VStr s) = (s \<noteq> [])"
| "truthy (VBool b) = b"
| "truthy (VList xs) = (xs \<noteq> [])"
| "truthy (VInt i) = (i \<noteq> 0)"
| "truthy VNone = False"

text \<open>Only \<open>list\<close> is unhashable among these values (a dictionary key must be hashable).\<close>

fun hashable :: "pyval \<Rightarrow> bool" where
  "hashable (VList xs) = False"
| "hashable v = True"

text \<open>
  \<open>str.lower\<close> on the ASCII letters; bytes outside \<open>A..Z\<close> (in particular every byte of
  a multi-byte UTF-8 sequence) are left as they are.
\<close>

definition lower_char :: "char \<Rightarrow> char" where
  "lower_char c =
     (case map_of (zip ''ABCDEFGHIJKLMNOPQRSTUVWXYZ'' ''abcdefghijklmnopqrstuvwxyz'') c of
        None \<Rightarrow> c
      | Some l \<Rightarrow> l)"

definition lower :: "string \<Rightarrow> string" where
  "lower s = map lower_char s"

text \<open>\<open>s.split(c)\<close> for a one-character separator, and \<open>sep.join(ws)\<close>.\<close>

fun split_on :: "char \<Rightarrow> string \<Rightarrow> string list" where
  "split_on c [] = [[]]"
| "split_on c (x # xs) =
     (if x = c then [] # split_on c xs
      else (case split_on c xs of [] \<Rightarrow> [[x]] | w # ws \<Rightarrow> (x # w) # ws))"

fun join_str :: "string \<Rightarrow> string list \<Rightarrow> string" where
  "join_str sep [] = []"
| "join_str sep [w] = w"
| "join_str sep (w # ws) = w @ sep @ join_str sep ws"

text \<open>
  The subscript \<open>xs[i]\<close> of a Python list of length \<open>n\<close>: the positions \<open>0..n-1\<close> are
  read directly, \<open>-n..-1\<close> are read from the end, anything else raises \<open>IndexError\<close>.
\<close>

definition py_index :: "'a list \<Rightarrow> int \<Rightarrow> error + 'a" where
  "py_index xs i =
     (if 0 \<le> i \<and> i < int (length xs) then Inr (xs ! nat i)
      else if i < 0 \<and> - int (length xs) \<le> i then Inr (xs ! nat (int (length xs) + i))
      else Inl IndexError)"

text \<open>Running a fallible function over a list stops at the first exception.\<close>

fun traverse :: "('a \<Rightarrow> error + 'b) \<Rightarrow> 'a list \<Rightarrow> error + 'b list" where
  "traverse f [] = Inr []"
| "traverse f (x # xs) =
     (case f x of Inl e \<Rightarrow> Inl e
      | Inr y \<Rightarrow> (case traverse f xs of Inl e \<Rightarrow> Inl e | Inr ys \<Rightarrow> Inr (y # ys)))"

section \<open>Data model\<close>

datatype QuestionType = SINGLE_CHOICE | MULTIPLE_CHOICE | TEXT | BOOLEAN | BOOLEAN_WITH_DETAILS

text \<open>\<open>QuestionType(value)\<close> raises \<open>ValueError\<close> for a string that is no member's value.\<close>

definition QuestionType_of :: "string \<Rightarrow> error + QuestionType" where
  "QuestionType_of s =
     (if s = ''single_choice'' then Inr SINGLE_CHOICE
      else if s = ''multiple_choice'' then Inr MULTIPLE_CHOICE
      else if s = ''text'' then Inr TEXT
      else if s = ''boolean'' then Inr BOOLEAN
      else if s = ''boolean_with_details'' then Inr BOOLEAN_WITH_DETAILS
      else Inl ValueError)"

record Question =
  q_question_id :: string
  q_question_text :: string
  q_question_type :: QuestionType
  q_required :: bool
  q_weight :: int
  q_options :: "string list option"
  q_follow_up :: "string option"
  q_placeholder :: "string option"

text \<open>The timestamp of a response is the clock reading \<open>datetime.now()\<close> at its creation.\<close>

record UserResponse =
  ur_question_id :: string
  ur_response :: pyval
  ur_additional_details :: "string option"
  ur_timestamp :: nat

record TemplateRecommendation =
  template_name :: string
  template_url :: string
  match_score :: rat
  style_tags :: "string list"
  pros :: "string list"
  cons :: "string list"
  customization_difficulty :: string
  preview_image :: "string option"

subsection \<open>The configuration document\<close>

text \<open>
  One entry of \<open>strategic_questions\<close>, as the JSON document has it: the question type is
  still a string there. An optional key is an \<open>option\<close>.
\<close>

record q_data =
  qd_question_id :: string
  qd_question_text :: string
  qd_question_type :: string
  qd_required :: bool
  qd_weight :: int
  qd_options :: "string list option"
  qd_follow_up :: "string option"
  qd_placeholder :: "string option"

record roadmap =
  rm_steps :: "string list option"
  rm_resources :: "string option"
  rm_customization_level :: "string option"

record section_data =
  section_id :: string
  strategic_questions :: "q_data list"
  implementation_roadmaps :: "(string \<times> roadmap) list option"

record phase_data =
  sections :: "section_data list"

record config =
  workflow_phases :: "phase_data list"
  weight_distribution :: "(string \<times> rat) list"

text \<open>A template of the catalogue; \<open>name\<close> and \<open>url\<close> are read with \<open>template[...]\<close>,
  every other key with \<open>template.get\<close>.\<close>

record template =
  t_name :: string
  t_url :: string
  t_style_tags :: "string list option"
  t_color_schemes :: "string list option"
  t_suitable_for :: "string list option"
  t_compatible_versions :: "string list option"
  t_pros :: "string list option"
  t_cons :: "string list option"
  t_difficulty :: "string option"
  t_preview_image :: "string option"

text \<open>
  The object \<open>PPTDesignerSystem\<close>. \<open>user_responses\<close> is a Python dictionary: an
  association list in insertion order, with distinct keys.
\<close>

record system =
  sys_config :: config
  user_responses :: "(string \<times> UserResponse) list"
  current_phase :: int
  current_section :: int
  recommendations :: "TemplateRecommendation list"

section \<open>The question catalogue\<close>

definition mk_question :: "q_data \<Rightarrow> error + Question" where
  "mk_question qd =
     (case QuestionType_of (qd_question_type qd) of
        Inl e \<Rightarrow> Inl e
      | Inr ty \<Rightarrow> Inr \<lparr>q_question_id = qd_question_id qd,
                      q_question_text = qd_question_text qd,
                      q_question_type = ty,
                      q_required = qd_required qd,
                      q_weight = qd_weight qd,
                      q_options = qd_options qd,
                      q_follow_up = qd_follow_up qd,
                      q_placeholder = qd_placeholder qd\<rparr>)"

text \<open>The three nested loops over phases, sections and questions visit this sequence.\<close>

definition phase_q_data :: "phase_data \<Rightarrow> q_data list" where
  "phase_q_data p = concat (map strategic_questions (sections p))"

definition all_q_data :: "config \<Rightarrow> q_data list" where
  "all_q_data cfg = concat (map phase_q_data (workflow_phases cfg))"

definition get_all_questions :: "system \<Rightarrow> error + Question list" where
  "get_all_questions s = traverse mk_question (all_q_data (sys_config s))"

definition get_questions_by_phase :: "system \<Rightarrow> int \<Rightarrow> error + Question list" where
  "get_questions_by_phase s phase_id =
     (case py_index (workflow_phases (sys_config s)) (phase_id - 1) of
        Inl e \<Rightarrow> Inl e
      | Inr phase \<Rightarrow> traverse mk_question (phase_q_data phase))"

text \<open>\<open>_find_question\<close>: the first entry with the id, in document order.\<close>

definition find_question :: "system \<Rightarrow> string \<Rightarrow> q_data option" where
  "find_question s qid = find (\<lambda>qd. qd_question_id qd = qid) (all_q_data (sys_config s))"

section \<open>The response store\<close>

text \<open>
  \<open>self.user_responses[question_id] = user_response\<close>: an existing key keeps its place
  and gets the new value, a new key is appended. The method returns \<open>True\<close>.
\<close>

definition submit_response ::
  "system \<Rightarrow> nat \<Rightarrow> string \<Rightarrow> pyval \<Rightarrow> string option \<Rightarrow> system \<times> bool" where
  "submit_response s now qid resp details =
     (let user_response = \<lparr>ur_question_id = qid, ur_response = resp,
                            ur_additional_details = details, ur_timestamp = now\<rparr>
      in (s\<lparr>user_responses := AList.update qid user_response (user_responses s)\<rparr>, True))"

section \<open>Profile scores\<close>

definition categories :: "string list" where
  "categories = [''content_goals'', ''audience_context'', ''design_preferences'',
     ''technical_requirements'', ''timeline_resources'', ''scalability'']"

text \<open>The dictionary \<open>scores\<close> as the method creates it, in insertion order.\<close>

definition initial_scores :: "(string \<times> rat) list" where
  "initial_scores = [(''content_goals'', 0), (''audience_context'', 0),
     (''design_preferences'', 0), (''technical_requirements'', 0),
     (''timeline_resources'', 0), (''scalability'', 0)]"

definition category_mapping :: "(string \<times> string) list" where
  "category_mapping = [(''q1.1'', ''content_goals''), (''q1.2'', ''audience_context''),
     (''q1.3'', ''design_preferences''), (''q2.1'', ''design_preferences''),
     (''q2.2'', ''technical_requirements''), (''q3.1'', ''content_goals''),
     (''q3.2'', ''audience_context''), (''q4.1'', ''technical_requirements''),
     (''q4.2'', ''technical_requirements''), (''q5.1'', ''timeline_resources''),
     (''q5.2'', ''scalability'')]"

text \<open>\<open>'.'.join(question_id.split('.')[:2])\<close>\<close>

definition id_prefix :: "string \<Rightarrow> string" where
  "id_prefix question_id = join_str ''.'' (take 2 (split_on (CHR ''.'') question_id))"

text \<open>
  The body of the loop over \<open>self.user_responses.items()\<close>. \<open>if category\<close> is the
  truthiness of a string or of \<open>None\<close>; \<open>question\<close>, when found, is a non-empty
  dictionary and so truthy. \<open>scores[category] += c\<close> changes an entry that exists, since
  every category of \<open>category_mapping\<close> is a key of \<open>scores\<close>.
\<close>

definition score_response ::
  "system \<Rightarrow> (string \<times> rat) list \<Rightarrow> string \<times> UserResponse \<Rightarrow> (string \<times> rat) list" where
  "score_response s scores item =
     (case item of (question_id, response) \<Rightarrow>
        (case map_of category_mapping (id_prefix question_id) of
           None \<Rightarrow> scores
         | Some category \<Rightarrow>
             if category = [] then scores
             else (case find_question s question_id of
                     None \<Rightarrow> scores
                   | Some question \<Rightarrow>
                       if truthy (ur_response response)
                       then AList.map_entry category
                              (\<lambda>v. v + of_int (qd_weight question) / 10) scores
                       else scores)))"

text \<open>
  The second loop, \<open>for category in scores\<close>: \<open>max_scores[category]\<close> raises
  \<open>KeyError\<close> at the first category the weight distribution lacks.
\<close>

fun normalize_scores ::
  "(string \<times> rat) list \<Rightarrow> (string \<times> rat) list \<Rightarrow> error + (string \<times> rat) list" where
  "normalize_scores max_scores [] = Inr []"
| "normalize_scores max_scores ((category, v) # rest) =
     (case map_of max_scores category of
        None \<Rightarrow> Inl KeyError
      | Some max_score \<Rightarrow>
          (case normalize_scores max_scores rest of
             Inl e \<Rightarrow> Inl e
           | Inr rest' \<Rightarrow> Inr ((category, min (v * 2) max_score) # rest')))"

definition calculate_profile_score :: "system \<Rightarrow> error + (string \<times> rat) list" where
  "calculate_profile_score s =
     normalize_scores (weight_distribution (sys_config s))
       (foldl (score_response s) initial_scores (user_responses s))"

section \<open>Template matching\<close>

text \<open>\<open>template_data.get(key, [])\<close>, and \<open>v in xs\<close> for a list of strings \<open>xs\<close>: a value
  that is no string equals no element.\<close>

definition get_list :: "string list option \<Rightarrow> string list" where
  "get_list x = (case x of None \<Rightarrow> [] | Some xs \<Rightarrow> xs)"

definition value_in :: "pyval \<Rightarrow> string list \<Rightarrow> bool" where
  "value_in v xs = (case v of VStr r \<Rightarrow> r \<in> set xs | _ \<Rightarrow> False)"

text \<open>
  Style matching: \<open>user_style.response.lower()\<close> exists for a string only; any other
  value raises \<open>AttributeError\<close>. A stored \<open>UserResponse\<close> object is always truthy.
\<close>

definition style_match :: "system \<Rightarrow> template \<Rightarrow> error + rat" where
  "style_match s template_data =
     (case map_of (user_responses s) ''q2.1.1'' of
        None \<Rightarrow> Inr 0
      | Some user_style \<Rightarrow>
          (case ur_response user_style of
             VStr r \<Rightarrow>
               Inr (if lower r \<in> set (get_list (t_style_tags template_data)) then 25 else 0)
           | _ \<Rightarrow> Inl AttributeError))"

definition color_match :: "system \<Rightarrow> template \<Rightarrow> rat" where
  "color_match s template_data =
     (case map_of (user_responses s) ''q1.3.2'' of
        None \<Rightarrow> 0
      | Some user_color \<Rightarrow>
          if value_in (ur_response user_color) (get_list (t_color_schemes template_data))
          then 20 else 0)"

definition functionality_match :: "system \<Rightarrow> template \<Rightarrow> rat" where
  "functionality_match s template_data =
     (case map_of (user_responses s) ''q1.1.1'' of
        None \<Rightarrow> 0
      | Some user_goal \<Rightarrow>
          if value_in (ur_response user_goal) (get_list (t_suitable_for template_data))
          then 30 else 0)"

definition technical_compatibility :: "system \<Rightarrow> template \<Rightarrow> rat" where
  "technical_compatibility s template_data =
     (case map_of (user_responses s) ''q2.2.1'' of
        None \<Rightarrow> 0
      | Some user_version \<Rightarrow>
          if value_in (ur_response user_version)
               (get_list (t_compatible_versions template_data))
          then 25 else 0)"

text \<open>
  The method first computes the profile scores (their sum is not used afterwards, but the
  call can raise), then the four factors in order, and returns their capped sum.
\<close>

definition calculate_template_match_score :: "system \<Rightarrow> template \<Rightarrow> error + rat" where
  "calculate_template_match_score s template_data =
     (case calculate_profile_score s of
        Inl e \<Rightarrow> Inl e
      | Inr profile_scores \<Rightarrow>
          (case style_match s template_data of
             Inl e \<Rightarrow> Inl e
           | Inr style \<Rightarrow>
               Inr (min (style + color_match s template_data
                           + functionality_match s template_data
                           + technical_compatibility s template_data) 100)))"

section \<open>Recommendations\<close>

definition mk_recommendation :: "system \<Rightarrow> template \<Rightarrow> error + TemplateRecommendation" where
  "mk_recommendation s t =
     (case calculate_template_match_score s t of
        Inl e \<Rightarrow> Inl e
      | Inr score \<Rightarrow>
          Inr \<lparr>template_name = t_name t, template_url = t_url t, match_score = score,
               style_tags = get_list (t_style_tags t), pros = get_list (t_pros t),
               cons = get_list (t_cons t),
               customization_difficulty =
                 (case t_difficulty t of None \<Rightarrow> ''medium'' | Some d \<Rightarrow> d),
               preview_image = t_preview_image t\<rparr>)"

text \<open>
  \<open>recommendations.sort(key=lambda x: x.match_score, reverse=True)\<close>: Python's sort is
  stable, also with \<open>reverse=True\<close>, so it is the stable sort by descending score.
\<close>

definition sort_by_score_desc :: "TemplateRecommendation list \<Rightarrow> TemplateRecommendation list" where
  "sort_by_score_desc recs = sort_key (\<lambda>x. - match_score x) recs"

text \<open>
  The result holds the object after the call, the catalogue after the call (the method
  has no assignment to it or to its elements) and the returned list. An exception leaves
  the object as it was: \<open>self.recommendations\<close> is assigned after the loop.
\<close>

definition generate_recommendations ::
  "system \<Rightarrow> template list \<Rightarrow> error + (system \<times> template list \<times> TemplateRecommendation list)" where
  "generate_recommendations s templates_database =
     (case traverse (mk_recommendation s) templates_database of
        Inl e \<Rightarrow> Inl e
      | Inr recs \<Rightarrow>
          (let sorted_recs = sort_by_score_desc recs
           in Inr (s\<lparr>recommendations := sorted_recs\<rparr>, templates_database,
                   take 10 sorted_recs)))"

section \<open>Implementation plan\<close>

definition timeline_1day :: string where
  "timeline_1day = [CHR ''1'', CHR 0xEC, CHR 0x9D, CHR 0xBC]"

definition timeline_1week :: string where
  "timeline_1week = [CHR ''1'', CHR 0xEC, CHR 0xA3, CHR 0xBC]"

definition timeline_1month :: string where
  "timeline_1month = [CHR ''1'', CHR 0xEA, CHR 0xB0, CHR 0x9C, CHR 0xEC, CHR 0x9B, CHR 0x94]"

definition experience_intermediate :: string where
  "experience_intermediate =
     [CHR 0xEC, CHR 0xA4, CHR 0x91, CHR 0xEA, CHR 0xB8, CHR 0x89, CHR 0xEC, CHR 0x9E, CHR 0x90]"

record plan =
  plan_timeline :: pyval
  plan_experience_level :: pyval
  plan_phases :: "string list"
  plan_resources_needed :: "string list"
  plan_estimated_hours :: int
  plan_customization_level :: "string option"

definition timeline_keys :: "(string \<times> string) list" where
  "timeline_keys = [(timeline_1day, ''tight_timeline_1day''),
     (timeline_1week, ''standard_timeline_1week''),
     (timeline_1month, ''extended_timeline_1month'')]"

text \<open>\<open>{...}.get(timeline.response, 'standard_timeline_1week')\<close>: an unhashable key
  raises \<open>TypeError\<close>; a key that is no string equals none of the three.\<close>

definition timeline_key_of :: "pyval \<Rightarrow> error + string" where
  "timeline_key_of v =
     (if \<not> hashable v then Inl TypeError
      else (case v of
              VStr r \<Rightarrow> (case map_of timeline_keys r of
                          None \<Rightarrow> Inr ''standard_timeline_1week''
                        | Some k \<Rightarrow> Inr k)
            | _ \<Rightarrow> Inr ''standard_timeline_1week''))"

text \<open>\<open>self.config['workflow_phases'][4]['sections'][0]['implementation_roadmaps']
  .get(timeline_key, {})\<close>; \<open>None\<close> stands for the empty dictionary of the default.\<close>

definition lookup_roadmap :: "config \<Rightarrow> string \<Rightarrow> error + roadmap option" where
  "lookup_roadmap cfg timeline_key =
     (case py_index (workflow_phases cfg) 4 of
        Inl e \<Rightarrow> Inl e
      | Inr phase \<Rightarrow>
          (case py_index (sections phase) 0 of
             Inl e \<Rightarrow> Inl e
           | Inr sec \<Rightarrow>
               (case implementation_roadmaps sec of
                  None \<Rightarrow> Inl KeyError
                | Some roadmaps \<Rightarrow> Inr (map_of roadmaps timeline_key))))"

definition roadmap_steps :: "roadmap option \<Rightarrow> string list" where
  "roadmap_steps r = (case r of None \<Rightarrow> [] | Some rm \<Rightarrow> get_list (rm_steps rm))"

definition roadmap_resources :: "roadmap option \<Rightarrow> string" where
  "roadmap_resources r =
     (case r of None \<Rightarrow> [] | Some rm \<Rightarrow> (case rm_resources rm of None \<Rightarrow> [] | Some x \<Rightarrow> x))"

definition roadmap_customization_level :: "roadmap option \<Rightarrow> string" where
  "roadmap_customization_level r =
     (case r of None \<Rightarrow> ''moderate''
      | Some rm \<Rightarrow> (case rm_customization_level rm of None \<Rightarrow> ''moderate'' | Some x \<Rightarrow> x))"

definition generate_implementation_plan :: "system \<Rightarrow> error + plan" where
  "generate_implementation_plan s =
     (let timeline = map_of (user_responses s) ''q5.1.1'';
          experience = map_of (user_responses s) ''q5.1.2'';
          plan = \<lparr>plan_timeline =
                    (case timeline of None \<Rightarrow> VStr timeline_1week | Some t \<Rightarrow> ur_response t),
                  plan_experience_level =
                    (case experience of None \<Rightarrow> VStr experience_intermediate
                     | Some e \<Rightarrow> ur_response e),
                  plan_phases = [], plan_resources_needed = [], plan_estimated_hours = 0,
                  plan_customization_level = None\<rparr>
      in case timeline of
           None \<Rightarrow> Inr plan
         | Some t \<Rightarrow>
             (case timeline_key_of (ur_response t) of
                Inl e \<Rightarrow> Inl e
              | Inr timeline_key \<Rightarrow>
                  (case lookup_roadmap (sys_config s) timeline_key of
                     Inl e \<Rightarrow> Inl e
                   | Inr roadmap \<Rightarrow>
                       Inr (plan\<lparr>plan_phases := roadmap_steps roadmap,
                                 plan_resources_needed := [roadmap_resources roadmap],
                                 plan_customization_level :=
                                   Some (roadmap_customization_level roadmap)\<rparr>))))"

section \<open>Export and progress\<close>

record exported_response =
  er_response :: pyval
  er_details :: "string option"
  er_timestamp :: nat

record exported_recommendation =
  rec_name :: string
  rec_url :: string
  rec_score :: rat

record profile =
  profile_id :: string
  created_at :: string
  responses :: "(string \<times> exported_response) list"
  profile_scores :: "(string \<times> rat) list"
  profile_recommendations :: "exported_recommendation list"

text \<open>
  The two readings of the clock arrive already formatted, as \<open>profile_id\<close> and
  \<open>created_at\<close>. The recommendations are the first five of the field
  \<open>self.recommendations\<close>.
\<close>

definition export_user_profile :: "system \<Rightarrow> string \<Rightarrow> string \<Rightarrow> error + profile" where
  "export_user_profile s now_id now_iso =
     (case calculate_profile_score s of
        Inl e \<Rightarrow> Inl e
      | Inr scores \<Rightarrow>
          Inr \<lparr>profile_id = now_id, created_at = now_iso,
               responses = map (\<lambda>(qid, resp).
                   (qid, \<lparr>er_response = ur_response resp,
                          er_details = ur_additional_details resp,
                          er_timestamp = ur_timestamp resp\<rparr>)) (user_responses s),
               profile_scores = scores,
               profile_recommendations = map (\<lambda>r.
                   \<lparr>rec_name = template_name r, rec_url = template_url r,
                    rec_score = match_score r\<rparr>) (take 5 (recommendations s))\<rparr>)"

text \<open>True division \<open>a / b\<close> of two integers.\<close>

definition py_truediv :: "nat \<Rightarrow> nat \<Rightarrow> error + rat" where
  "py_truediv a b = (if b = 0 then Inl ZeroDivisionError else Inr (of_nat a / of_nat b))"

definition get_progress_percentage :: "system \<Rightarrow> error + rat" where
  "get_progress_percentage s =
     (case get_all_questions s of
        Inl e \<Rightarrow> Inl e
      | Inr all_questions \<Rightarrow>
          (let required_questions = filter q_required all_questions;
               answered_required = length (filter
                  (\<lambda>q. map_of (user_responses s) (q_question_id q) \<noteq> None) required_questions)
           in if required_questions = [] then Inr 100
              else (case py_truediv answered_required (length required_questions) of
                      Inl e \<Rightarrow> Inl e
                    | Inr r \<Rightarrow> Inr (r * 100))))"

section \<open>Conditions on the configuration, and the scores as the specification words them\<close>

definition covers_categories :: "config \<Rightarrow> bool" where
  "covers_categories cfg =
     list_all (\<lambda>c. map_of (weight_distribution cfg) c \<noteq> None) categories"

definition category_max :: "config \<Rightarrow> string \<Rightarrow> rat" where
  "category_max cfg c = (case map_of (weight_distribution cfg) c of None \<Rightarrow> 0 | Some m \<Rightarrow> m)"

definition nonneg_weights :: "config \<Rightarrow> bool" where
  "nonneg_weights cfg = list_all (\<lambda>qd. 0 \<le> qd_weight qd) (all_q_data cfg)"

definition nonneg_maxima :: "config \<Rightarrow> bool" where
  "nonneg_maxima cfg = list_all (\<lambda>c. 0 \<le> category_max cfg c) categories"

definition valid_question_types :: "config \<Rightarrow> bool" where
  "valid_question_types cfg =
     list_all (\<lambda>qd. qd_question_type qd \<in> set [''single_choice'', ''multiple_choice'',
                  ''text'', ''boolean'', ''boolean_with_details'']) (all_q_data cfg)"

text \<open>
  A stored response contributes to a category when the two-level prefix of its id maps
  to the category, its question is found in the catalogue and its value is truthy; it
  then contributes a tenth of the question's weight.
\<close>

definition contributes :: "system \<Rightarrow> string \<Rightarrow> string \<times> UserResponse \<Rightarrow> bool" where
  "contributes s category item =
     (map_of category_mapping (id_prefix (fst item)) = Some category
      \<and> find_question s (fst item) \<noteq> None
      \<and> truthy (ur_response (snd item)))"

definition contribution :: "system \<Rightarrow> string \<times> UserResponse \<Rightarrow> rat" where
  "contribution s item =
     (case find_question s (fst item) of None \<Rightarrow> 0 | Some q \<Rightarrow> of_int (qd_weight q) / 10)"

definition category_total :: "system \<Rightarrow> string \<Rightarrow> rat" where
  "category_total s category =
     sum_list (map (contribution s) (filter (contributes s category) (user_responses s)))"

text \<open>The style tags are matched as they are written; only the response is lower-cased.\<close>

definition style_triggered :: "system \<Rightarrow> template \<Rightarrow> bool" where
  "style_triggered s t =
     (case map_of (user_responses s) ''q2.1.1'' of
        None \<Rightarrow> False
      | Some u \<Rightarrow> (case ur_response u of
                     VStr r \<Rightarrow> lower r \<in> set (get_list (t_style_tags t))
                   | _ \<Rightarrow> False))"

text \<open>The style response, when there is one, is a string.\<close>

definition style_response_ok :: "system \<Rightarrow> bool" where
  "style_response_ok s =
     (case map_of (user_responses s) ''q2.1.1'' of
        None \<Rightarrow> True
      | Some u \<Rightarrow> (case ur_response u of VStr r \<Rightarrow> True | _ \<Rightarrow> False))"

section \<open>A small configuration, for evaluation\<close>

definition ex_q1 :: q_data where
  "ex_q1 = \<lparr>qd_question_id = ''q1.1.1'', qd_question_text = ''primary goal'',
            qd_question_type = ''single_choice'', qd_required = True, qd_weight = 8,
            qd_options = Some [''education'', ''sales''], qd_follow_up = None,
            qd_placeholder = None\<rparr>"

definition ex_q2 :: q_data where
  "ex_q2 = \<lparr>qd_question_id = ''q1.2.1'', qd_question_text = ''audience'',
            qd_question_type = ''text'', qd_required = False, qd_weight = 6,
            qd_options = None, qd_follow_up = None, qd_placeholder = None\<rparr>"

definition ex_phase :: "q_data list \<Rightarrow> (string \<times> roadmap) list option \<Rightarrow> phase_data" where
  "ex_phase qs rms = \<lparr>sections = [\<lparr>section_id = ''s'', strategic_questions = qs,
                                    implementation_roadmaps = rms\<rparr>]\<rparr>"

definition ex_roadmaps :: "(string \<times> roadmap) list" where
  "ex_roadmaps =
     [(''tight_timeline_1day'',
         \<lparr>rm_steps = Some [''pick''], rm_resources = Some ''template'',
          rm_customization_level = Some ''minimal''\<rparr>),
      (''standard_timeline_1week'',
         \<lparr>rm_steps = Some [''plan'', ''draft'', ''polish''], rm_resources = Some ''designer'',
          rm_customization_level = Some ''high''\<rparr>)]"

definition ex_weights :: "(string \<times> rat) list" where
  "ex_weights = [(''content_goals'', 20), (''audience_context'', 20),
     (''design_preferences'', 20), (''technical_requirements'', 15),
     (''timeline_resources'', 15), (''scalability'', 10)]"

definition ex_config :: config where
  "ex_config = \<lparr>workflow_phases = [ex_phase [ex_q1, ex_q2] None, ex_phase [] None,
                   ex_phase [] None, ex_phase [] None, ex_phase [] (Some ex_roadmaps)],
                weight_distribution = ex_weights\<rparr>"

definition ex_system :: system where
  "ex_system = \<lparr>sys_config = ex_config, user_responses = [], current_phase = 1,
                current_section = 1, recommendations = []\<rparr>"

definition ex_response :: "string \<Rightarrow> pyval \<Rightarrow> UserResponse" where
  "ex_response qid v = \<lparr>ur_question_id = qid, ur_response = v,
                        ur_additional_details = None, ur_timestamp = 0\<rparr>"

definition ex_template :: "string \<Rightarrow> string list \<Rightarrow> template" where
  "ex_template n tags = \<lparr>t_name = n, t_url = ''https://example.com/t'',
     t_style_tags = Some tags, t_color_schemes = Some [''beige_orange''],
     t_suitable_for = Some [''education''], t_compatible_versions = Some [''2021''],
     t_pros = None, t_cons = None, t_difficulty = None, t_preview_image = None\<rparr>"

definition ex_answered :: system where
  "ex_answered = ex_system\<lparr>user_responses :=
     [(''q1.1.1'', ex_response ''q1.1.1'' (VStr ''education'')),
      (''q2.1.1'', ex_response ''q2.1.1'' (VStr ''Minimal'')),
      (''q1.3.2'', ex_response ''q1.3.2'' (VStr ''beige_orange'')),
      (''q1.2.1'', ex_response ''q1.2.1'' (VStr []))]\<rparr>"

text \<open>A question of negative weight, and a category of negative maximum.\<close>

definition ex_negative_weight :: system where
  "ex_negative_weight = ex_system\<lparr>
     sys_config := ex_config\<lparr>workflow_phases := [ex_phase [ex_q1\<lparr>qd_weight := - 5\<rparr>] None]\<rparr>,
     user_responses := [(''q1.1.1'', ex_response ''q1.1.1'' (VStr ''education''))]\<rparr>"

definition ex_negative_max :: system where
  "ex_negative_max = ex_system\<lparr>
     sys_config := ex_config\<lparr>weight_distribution :=
       [(''content_goals'', 20), (''audience_context'', 20), (''design_preferences'', 20),
        (''technical_requirements'', 15), (''timeline_resources'', 15),
        (''scalability'', - 5)]\<rparr>\<rparr>"

text \<open>The required questions of the catalogue, and those among them with a stored response.\<close>

definition required_q_data :: "system \<Rightarrow> q_data list" where
  "required_q_data s = filter qd_required (all_q_data (sys_config s))"

definition answered_q_data :: "system \<Rightarrow> q_data list" where
  "answered_q_data s =
     filter (\<lambda>qd. qd_question_id qd \<in> set (map fst (user_responses s))) (required_q_data s)"

text \<open>The four question ids that \<open>calculate_template_match_score\<close> looks up.\<close>

definition designated_ids :: "string list" where
  "designated_ids = [''q2.1.1'', ''q1.3.2'', ''q1.1.1'', ''q2.2.1'']"

definition ex_other :: system where
  "ex_other = ex_system\<lparr>user_responses :=
     [(''q9.9.9'', ex_response ''q9.9.9'' (VList [''x''])),
      (''q1.3.2'', (ex_response ''q1.3.2'' (VStr ''beige_orange''))\<lparr>ur_timestamp := 7\<rparr>),
      (''q1.1.1'', ex_response ''q1.1.1'' (VStr ''education'')),
      (''q2.1.1'', ex_response ''q2.1.1'' (VStr ''Minimal''))],
     recommendations := []\<rparr>"

text \<open>A catalogue without a required question, and a store that is not empty.\<close>

definition ex_no_required :: system where
  "ex_no_required = ex_system\<lparr>
     sys_config := ex_config\<lparr>workflow_phases := [ex_phase [ex_q2] None]\<rparr>,
     user_responses := [(''q1.2.1'', ex_response ''q1.2.1'' (VStr ''students''))]\<rparr>"

text \<open>
  A factor other than the style factor is triggered when the designated response is
  stored and is an element of the template's list.
\<close>

definition factor_triggered :: "system \<Rightarrow> string \<Rightarrow> string list option \<Rightarrow> bool" where
  "factor_triggered s qid tags =
     (case map_of (user_responses s) qid of
        None \<Rightarrow> False
      | Some u \<Rightarrow> value_in (ur_response u) (get_list tags))"

text \<open>The sum of the triggered weights.\<close>

definition triggered_weights :: "system \<Rightarrow> template \<Rightarrow> rat" where
  "triggered_weights s t =
     (if style_triggered s t then 25 else 0)
     + (if factor_triggered s ''q1.3.2'' (t_color_schemes t) then 20 else 0)
     + (if factor_triggered s ''q1.1.1'' (t_suitable_for t) then 30 else 0)
     + (if factor_triggered s ''q2.2.1'' (t_compatible_versions t) then 25 else 0)"

definition ex_lower_style :: system where
  "ex_lower_style = ex_system\<lparr>user_responses :=
     [(''q2.1.1'', ex_response ''q2.1.1'' (VStr ''minimal''))]\<rparr>"

definition ex_list_style :: system where
  "ex_list_style = ex_system\<lparr>user_responses :=
     [(''q2.1.1'', ex_response ''q2.1.1'' (VList [''minimal'', ''modern'']))]\<rparr>"

definition ex_uncovered :: system where
  "ex_uncovered = ex_system\<lparr>sys_config := ex_config\<lparr>weight_distribution :=
     [(''content_goals'', 20), (''audience_context'', 20)]\<rparr>\<rparr>"

definition ex_catalog :: "template list" where
  "ex_catalog = [ex_template ''A'' [''modern''], ex_template ''B'' [''minimal''],
                 ex_template ''C'' [''classic'']]"

definition ex_unrecognized :: system where
  "ex_unrecognized = ex_system\<lparr>user_responses :=
     [(''q5.1.1'', ex_response ''q5.1.1'' (VStr ''2 weeks''))]\<rparr>"

text \<open>
  The object after \<open>generate_recommendations\<close> on \<open>ex_answered\<close>, and that object after
  a new response to \<open>q2.1.1\<close>.
\<close>

definition ex_after_recs :: system where
  "ex_after_recs =
     (case generate_recommendations ex_answered ex_catalog of
        Inl e \<Rightarrow> ex_answered
      | Inr (s', c, out) \<Rightarrow> s')"

definition ex_after_change :: system where
  "ex_after_change = fst (submit_response ex_after_recs 5 ''q2.1.1'' (VStr ''classic'') None)"

section \<open>Evaluation of the examples\<close>

lemmas ex_defs = ex_answered_def ex_system_def ex_config_def ex_phase_def ex_q1_def ex_q2_def
  ex_weights_def ex_response_def ex_roadmaps_def ex_negative_weight_def ex_negative_max_def

lemmas score_defs = calculate_profile_score_def score_response_def initial_scores_def
  category_mapping_def id_prefix_def find_question_def all_q_data_def phase_q_data_def

section \<open>Profile scores: the fold and the normalisation\<close>

lemma map_fst_map_entry: "map fst (AList.map_entry k f xs) = map fst xs"
  by (induction xs) auto

lemma map_fst_score_response: "map fst (score_response s sc item) = map fst sc"
  by (cases item)
     (simp add: score_response_def map_fst_map_entry split: option.splits)

lemma map_fst_accumulate:
  "map fst (foldl (score_response s) sc items) = map fst sc"
  by (induction items arbitrary: sc) (simp_all add: map_fst_score_response)

lemma category_mapping_nonempty:
  "map_of category_mapping p = Some c \<Longrightarrow> c \<noteq> []"
  by (auto simp: category_mapping_def split: if_splits)

lemma map_of_score_response:
  "map_of (score_response s sc item) c =
     map_option (\<lambda>v. v + (if contributes s c item then contribution s item else 0))
       (map_of sc c)"
proof (cases item)
  case (Pair qid r)
  show ?thesis
  proof (cases "map_of sc c")
    case None
    then show ?thesis
      by (simp add: Pair score_response_def AList.map_of_map_entry split: option.splits)
  next
    case (Some v)
    then show ?thesis
      using category_mapping_nonempty [of "id_prefix qid"]
      by (auto simp: Pair score_response_def AList.map_of_map_entry contributes_def
            contribution_def split: option.splits)
  qed
qed

lemma map_of_accumulate:
  "map_of (foldl (score_response s) sc items) c =
     map_option (\<lambda>v. v + sum_list (map (contribution s) (filter (contributes s c) items)))
       (map_of sc c)"
proof (induction items arbitrary: sc)
  case Nil
  show ?case by (simp add: option.map_ident)
next
  case (Cons item items)
  show ?case
    by (simp add: Cons.IH map_of_score_response option.map_comp comp_def add.assoc)
qed

lemma normalize_scores_Inr:
  "\<forall>c\<in>set (map fst sc). map_of mx c \<noteq> None \<Longrightarrow>
   normalize_scores mx sc =
     Inr (map (\<lambda>(c, v). (c, min (v * 2) (case map_of mx c of None \<Rightarrow> 0 | Some m \<Rightarrow> m))) sc)"
  by (induction sc) (auto split: option.splits)

lemma normalize_scores_Inl:
  "\<exists>c\<in>set (map fst sc). map_of mx c = None \<Longrightarrow> normalize_scores mx sc = Inl KeyError"
proof (induction sc)
  case Nil
  then show ?case by simp
next
  case (Cons p sc)
  obtain c v where p: "p = (c, v)" by (cases p)
  show ?case
  proof (cases "map_of mx c")
    case None
    then show ?thesis by (simp add: p)
  next
    case (Some m)
    with Cons.prems p have "\<exists>c\<in>set (map fst sc). map_of mx c = None" by auto
    then have "normalize_scores mx sc = Inl KeyError" by (rule Cons.IH)
    with Some show ?thesis by (simp add: p)
  qed
qed

lemma map_of_map_keyed:
  "map_of (map (\<lambda>(c, v). (c, f c v)) xs) k = map_option (f k) (map_of xs k)"
  by (induction xs) auto

lemma calculate_profile_score_cases:
  "calculate_profile_score s =
     (if covers_categories (sys_config s)
      then Inr (map (\<lambda>(c, v). (c, min (v * 2) (category_max (sys_config s) c)))
                  (foldl (score_response s) initial_scores (user_responses s)))
      else Inl KeyError)"
proof -
  have keys: "map fst (foldl (score_response s) initial_scores (user_responses s)) = categories"
    by (simp add: map_fst_accumulate initial_scores_def categories_def)
  show ?thesis
  proof (cases "covers_categories (sys_config s)")
    case True
    then have "\<forall>c\<in>set (map fst (foldl (score_response s) initial_scores (user_responses s))).
                 map_of (weight_distribution (sys_config s)) c \<noteq> None"
      unfolding keys by (simp add: covers_categories_def list_all_iff)
    from normalize_scores_Inr [OF this] True show ?thesis
      by (simp add: calculate_profile_score_def category_max_def)
  next
    case False
    then have "\<exists>c\<in>set (map fst (foldl (score_response s) initial_scores (user_responses s))).
                 map_of (weight_distribution (sys_config s)) c = None"
      unfolding keys by (simp add: covers_categories_def list_all_iff)
    from normalize_scores_Inl [OF this] False show ?thesis
      by (simp add: calculate_profile_score_def)
  qed
qed

lemma map_of_initial_scores:
  "c \<in> set categories \<Longrightarrow> map_of initial_scores c = Some 0"
  by (auto simp: initial_scores_def categories_def)

lemma contribution_nonneg:
  assumes "nonneg_weights (sys_config s)"
  shows "0 \<le> contribution s item"
proof (cases "find_question s (fst item)")
  case None
  then show ?thesis by (simp add: contribution_def)
next
  case (Some q)
  then have "q \<in> set (all_q_data (sys_config s))"
    by (auto simp: find_question_def find_Some_iff)
  with assms have "0 \<le> qd_weight q" by (simp add: nonneg_weights_def list_all_iff)
  with Some show ?thesis by (simp add: contribution_def)
qed

lemma category_total_nonneg:
  "nonneg_weights (sys_config s) \<Longrightarrow> 0 \<le> category_total s c"
  unfolding category_total_def
  by (rule sum_list_nonneg) (auto simp: contribution_nonneg)

text \<open>
  Claim C1, as amended. For every response store and every configuration whose weight
  distribution covers the six categories, whose question weights are not negative and
  whose category maxima are not negative, \<open>calculate_profile_score\<close> returns a mapping
  with exactly the six fixed categories, in their fixed order; the score of each category
  is the minimum of the category's maximum and twice the sum of \<open>weight / 10\<close> over the
  stored responses whose two-level id prefix maps to the category, whose question is in
  the catalogue and whose value is truthy; it lies between \<open>0\<close> and the maximum; and a
  category without a contributing response has the score \<open>0\<close>.
\<close>

theorem profile_scores_bounded:
  assumes cov: "covers_categories (sys_config s)"
    and w: "nonneg_weights (sys_config s)"
    and m: "nonneg_maxima (sys_config s)"
  shows "\<exists>scores. calculate_profile_score s = Inr scores
           \<and> map fst scores = categories
           \<and> (\<forall>c\<in>set categories.
                 map_of scores c =
                   Some (min (2 * category_total s c) (category_max (sys_config s) c))
                 \<and> 0 \<le> min (2 * category_total s c) (category_max (sys_config s) c)
                 \<and> min (2 * category_total s c) (category_max (sys_config s) c)
                     \<le> category_max (sys_config s) c
                 \<and> (filter (contributes s c) (user_responses s) = []
                      \<longrightarrow> map_of scores c = Some 0))"
proof -
  let ?acc = "foldl (score_response s) initial_scores (user_responses s)"
  let ?scores = "map (\<lambda>(c, v). (c, min (v * 2) (category_max (sys_config s) c))) ?acc"
  have r: "calculate_profile_score s = Inr ?scores"
    using cov by (simp add: calculate_profile_score_cases)
  have keys: "map fst ?scores = categories"
    by (simp add: comp_def case_prod_unfold map_fst_accumulate initial_scores_def
          categories_def)
  have each: "map_of ?scores c = Some (min (2 * category_total s c) (category_max (sys_config s) c))
        \<and> 0 \<le> min (2 * category_total s c) (category_max (sys_config s) c)
        \<and> min (2 * category_total s c) (category_max (sys_config s) c)
             \<le> category_max (sys_config s) c
        \<and> (filter (contributes s c) (user_responses s) = [] \<longrightarrow> map_of ?scores c = Some 0)"
    if c: "c \<in> set categories" for c
  proof -
    have v: "map_of ?scores c = Some (min (2 * category_total s c) (category_max (sys_config s) c))"
      by (simp add: map_of_map_keyed map_of_accumulate map_of_initial_scores [OF c]
            category_total_def mult.commute)
    have t: "0 \<le> category_total s c" using w by (rule category_total_nonneg)
    have mx: "0 \<le> category_max (sys_config s) c"
      using m c by (simp add: nonneg_maxima_def list_all_iff)
    have z: "filter (contributes s c) (user_responses s) = [] \<Longrightarrow> category_total s c = 0"
      by (simp add: category_total_def)
    show ?thesis using v t mx z by auto
  qed
  show ?thesis using r keys each by blast
qed

text \<open>
  The theorem at the store of \<open>ex_answered\<close>: the answer to \<open>q1.1.1\<close> (weight 8) gives
  \<open>content_goals\<close> the score \<open>1.6\<close>; the empty answer to \<open>q1.2.1\<close> contributes nothing.
\<close>

theorem profile_scores_bounded_witness:
  "covers_categories (sys_config ex_answered) \<and> nonneg_weights (sys_config ex_answered)
   \<and> nonneg_maxima (sys_config ex_answered)
   \<and> (\<exists>scores. calculate_profile_score ex_answered = Inr scores
         \<and> map fst scores = categories
         \<and> map_of scores ''content_goals'' = Some (8 / 5)
         \<and> map_of scores ''audience_context'' = Some 0)"
proof -
  have h1: "covers_categories (sys_config ex_answered)"
    by (simp add: ex_defs covers_categories_def categories_def)
  have h2: "nonneg_weights (sys_config ex_answered)"
    by (simp add: ex_defs nonneg_weights_def all_q_data_def phase_q_data_def)
  have h3: "nonneg_maxima (sys_config ex_answered)"
    by (simp add: ex_defs nonneg_maxima_def category_max_def categories_def)
  have t1: "category_total ex_answered ''content_goals'' = 4 / 5"
    by (simp add: ex_defs category_total_def contributes_def contribution_def score_defs)
  have t2: "filter (contributes ex_answered ''audience_context'') (user_responses ex_answered) = []"
    by (simp add: ex_defs contributes_def score_defs)
  have m1: "category_max (sys_config ex_answered) ''content_goals'' = 20"
    by (simp add: ex_defs category_max_def)
  have c1: "''content_goals'' \<in> set categories" and c2: "''audience_context'' \<in> set categories"
    by (simp_all add: categories_def)
  from profile_scores_bounded [OF h1 h2 h3] obtain scores where
    r: "calculate_profile_score ex_answered = Inr scores" "map fst scores = categories"
    and a: "\<forall>c\<in>set categories.
                 map_of scores c =
                   Some (min (2 * category_total ex_answered c) (category_max (sys_config ex_answered) c))
                 \<and> 0 \<le> min (2 * category_total ex_answered c) (category_max (sys_config ex_answered) c)
                 \<and> min (2 * category_total ex_answered c) (category_max (sys_config ex_answered) c)
                     \<le> category_max (sys_config ex_answered) c
                 \<and> (filter (contributes ex_answered c) (user_responses ex_answered) = []
                      \<longrightarrow> map_of scores c = Some 0)"
    by blast
  from a c1 t1 m1 have "map_of scores ''content_goals'' = Some (8 / 5)" by force
  moreover from a c2 t2 have "map_of scores ''audience_context'' = Some 0" by blast
  ultimately show ?thesis using h1 h2 h3 r by blast
qed

text \<open>
  Without the two conditions on the numbers the bounds of C1 fail: a question of weight
  \<open>-5\<close> gives its category the score \<open>-1\<close>, and a category of maximum \<open>-5\<close> has the
  score \<open>-5\<close> with an empty store.
\<close>

theorem profile_scores_counterexample:
  "covers_categories (sys_config ex_negative_weight)
   \<and> calculate_profile_score ex_negative_weight =
       Inr [(''content_goals'', - 1), (''audience_context'', 0), (''design_preferences'', 0),
            (''technical_requirements'', 0), (''timeline_resources'', 0), (''scalability'', 0)]
   \<and> covers_categories (sys_config ex_negative_max)
   \<and> user_responses ex_negative_max = []
   \<and> calculate_profile_score ex_negative_max =
       Inr [(''content_goals'', 0), (''audience_context'', 0), (''design_preferences'', 0),
            (''technical_requirements'', 0), (''timeline_resources'', 0), (''scalability'', - 5)]"
  by (simp add: ex_defs score_defs covers_categories_def categories_def)

section \<open>The response store: overwriting\<close>

lemma count_key_distinct:
  "distinct (map fst al) \<Longrightarrow> k \<in> fst ` set al \<Longrightarrow> length (filter (\<lambda>p. fst p = k) al) = 1"
proof (induction al)
  case Nil
  then show ?case by simp
next
  case (Cons p al)
  show ?case
  proof (cases "fst p = k")
    case True
    with Cons.prems have "k \<notin> fst ` set al" by auto
    then have "filter (\<lambda>p. fst p = k) al = []" by (auto simp: filter_empty_conv)
    with True show ?thesis by simp
  next
    case False
    with Cons show ?thesis by auto
  qed
qed

text \<open>
  Claim C8. \<open>submit_response\<close> always stores and returns \<open>True\<close>. Submitting the id
  \<open>X\<close> twice, with any two values, leaves exactly one entry for \<open>X\<close> in a store whose
  keys are distinct (a dictionary); the entry holds the second value, the second details
  and the second timestamp; every other id keeps its response; and the object is the one
  the second submission alone would have produced, so nothing of the first value remains.
\<close>

theorem submit_response_overwrites:
  assumes "distinct (map fst (user_responses s))"
  shows "let r1 = submit_response s t1 X v1 d1;
             r2 = submit_response (fst r1) t2 X v2 d2
         in snd r1 \<and> snd r2
            \<and> distinct (map fst (user_responses (fst r2)))
            \<and> length (filter (\<lambda>p. fst p = X) (user_responses (fst r2))) = 1
            \<and> map_of (user_responses (fst r2)) X =
                Some \<lparr>ur_question_id = X, ur_response = v2,
                      ur_additional_details = d2, ur_timestamp = t2\<rparr>
            \<and> (\<forall>Y. Y \<noteq> X \<longrightarrow>
                   map_of (user_responses (fst r2)) Y = map_of (user_responses s) Y)
            \<and> fst r2 = fst (submit_response s t2 X v2 d2)"
proof -
  let ?u2 = "\<lparr>ur_question_id = X, ur_response = v2,
               ur_additional_details = d2, ur_timestamp = t2\<rparr>"
  let ?al = "AList.update X ?u2 (user_responses s)"
  have d: "distinct (map fst ?al)" using assms by (rule AList.distinct_update)
  have k: "X \<in> fst ` set ?al" by (simp add: AList.dom_update)
  have c: "length (filter (\<lambda>p. fst p = X) ?al) = 1" using d k by (rule count_key_distinct)
  have m: "map_of ?al = (map_of (user_responses s))(X \<mapsto> ?u2)" by (rule AList.update_conv')
  show ?thesis
    using d c m by (simp add: submit_response_def Let_def)
qed

text \<open>
  The theorem at the store of \<open>ex_answered\<close>, where \<open>q1.1.1\<close> is answered twice and
  \<open>q2.1.1\<close> is another id.
\<close>

theorem submit_response_overwrites_witness:
  "distinct (map fst (user_responses ex_answered))
   \<and> ''q2.1.1'' \<noteq> ''q1.1.1''
   \<and> (let r1 = submit_response ex_answered 1 ''q1.1.1'' (VStr ''sales'') None;
           r2 = submit_response (fst r1) 2 ''q1.1.1'' (VStr ''training'') (Some ''in house'')
       in snd r1 \<and> snd r2
          \<and> length (filter (\<lambda>p. fst p = ''q1.1.1'') (user_responses (fst r2))) = 1
          \<and> map_of (user_responses (fst r2)) ''q1.1.1'' =
               Some \<lparr>ur_question_id = ''q1.1.1'', ur_response = VStr ''training'',
                     ur_additional_details = Some ''in house'', ur_timestamp = 2\<rparr>
          \<and> map_of (user_responses (fst r2)) ''q2.1.1'' =
               map_of (user_responses ex_answered) ''q2.1.1'')"
proof -
  have h: "distinct (map fst (user_responses ex_answered))"
    by (simp add: ex_defs)
  have n: "''q2.1.1'' \<noteq> ''q1.1.1''" by simp
  note t = submit_response_overwrites [OF h, of 1 "''q1.1.1''" "VStr ''sales''" None 2
      "VStr ''training''" "Some ''in house''", unfolded Let_def]
  from t have u: "\<forall>Y. Y \<noteq> ''q1.1.1'' \<longrightarrow>
      map_of (user_responses (fst (submit_response
         (fst (submit_response ex_answered 1 ''q1.1.1'' (VStr ''sales'') None))
         2 ''q1.1.1'' (VStr ''training'') (Some ''in house'')))) Y
      = map_of (user_responses ex_answered) Y"
    by (elim conjE) assumption
  note o = u [rule_format, OF n]
  show ?thesis unfolding Let_def
    using t h n o by (elim conjE) (intro conjI; assumption)
qed

section \<open>Progress\<close>

lemma QuestionType_of_error: "QuestionType_of ty = Inl e \<Longrightarrow> e = ValueError"
  by (simp add: QuestionType_of_def split: if_splits)

lemma mk_question_error: "mk_question qd = Inl e \<Longrightarrow> e = ValueError"
  by (auto simp: mk_question_def split: sum.splits dest: QuestionType_of_error)

lemma traverse_mk_question_error: "traverse mk_question xs = Inl e \<Longrightarrow> e = ValueError"
  by (induction xs) (auto split: sum.splits dest: mk_question_error)

lemma mk_question_fields:
  "mk_question qd = Inr q \<Longrightarrow>
     q_required q = qd_required qd \<and> q_question_id q = qd_question_id qd"
  by (auto simp: mk_question_def split: sum.splits)

lemma mk_question_valid:
  "qd_question_type qd \<in> set [''single_choice'', ''multiple_choice'', ''text'', ''boolean'',
      ''boolean_with_details''] \<Longrightarrow> \<exists>q. mk_question qd = Inr q"
  by (auto simp: mk_question_def QuestionType_of_def)

lemma traverse_mk_question_valid:
  "list_all (\<lambda>qd. qd_question_type qd \<in> set [''single_choice'', ''multiple_choice'', ''text'',
      ''boolean'', ''boolean_with_details'']) xs \<Longrightarrow> \<exists>qs. traverse mk_question xs = Inr qs"
proof (induction xs)
  case Nil
  show ?case by simp
next
  case (Cons x xs)
  from Cons.prems mk_question_valid [of x] obtain q where "mk_question x = Inr q" by auto
  moreover from Cons obtain qs where "traverse mk_question xs = Inr qs" by auto
  ultimately show ?case by simp
qed

lemma traverse_mk_question_counts:
  "traverse mk_question xs = Inr qs \<Longrightarrow>
     length (filter q_required qs) = length (filter qd_required xs)
     \<and> length (filter (\<lambda>q. P (q_question_id q)) (filter q_required qs))
         = length (filter (\<lambda>qd. P (qd_question_id qd)) (filter qd_required xs))"
proof (induction xs arbitrary: qs)
  case Nil
  then show ?case by auto
next
  case (Cons x xs)
  from Cons.prems obtain q qs' where q: "mk_question x = Inr q"
    and t: "traverse mk_question xs = Inr qs'" and e: "qs = q # qs'"
    by (auto split: sum.splits)
  from Cons.IH [OF t] mk_question_fields [OF q] e show ?case by simp
qed

text \<open>
  Claim C9. \<open>get_progress_percentage\<close> never divides by zero, whatever the store and
  the catalogue. When the catalogue loads (every question type of the configuration is
  one of the five), it returns the number of required questions whose id has a stored
  response, divided by the number of required questions, times \<open>100\<close>; and exactly
  \<open>100\<close> when no question is required, whatever the store holds.
\<close>

theorem progress_percentage:
  "get_progress_percentage s \<noteq> Inl ZeroDivisionError
   \<and> (valid_question_types (sys_config s) \<longrightarrow>
        get_progress_percentage s =
          Inr (if required_q_data s = [] then 100
               else of_nat (length (answered_q_data s)) / of_nat (length (required_q_data s))
                      * 100))"
proof (cases "get_all_questions s")
  case (Inl e)
  then have e: "e = ValueError"
    by (simp add: get_all_questions_def traverse_mk_question_error)
  have "\<not> valid_question_types (sys_config s)"
  proof
    assume "valid_question_types (sys_config s)"
    then obtain qs where "traverse mk_question (all_q_data (sys_config s)) = Inr qs"
      unfolding valid_question_types_def by (blast dest: traverse_mk_question_valid)
    with Inl show False by (simp add: get_all_questions_def)
  qed
  with Inl e show ?thesis by (simp add: get_progress_percentage_def)
next
  case (Inr qs)
  then have t: "traverse mk_question (all_q_data (sys_config s)) = Inr qs"
    by (simp add: get_all_questions_def)
  note c = traverse_mk_question_counts [OF t,
      of "\<lambda>k. k \<in> set (map fst (user_responses s))"]
  have k: "(map_of (user_responses s) k \<noteq> None) = (k \<in> set (map fst (user_responses s)))"
    for k by (simp add: map_of_eq_None_iff)
  have r: "length (filter q_required qs) = length (required_q_data s)"
    using c by (simp only: required_q_data_def)
  have a: "length (filter (\<lambda>q. map_of (user_responses s) (q_question_id q) \<noteq> None)
             (filter q_required qs)) = length (answered_q_data s)"
    using c by (simp only: k answered_q_data_def required_q_data_def)
  show ?thesis
  proof (cases "filter q_required qs = []")
    case True
    with r have "required_q_data s = []" by simp
    with True Inr show ?thesis by (simp add: get_progress_percentage_def)
  next
    case False
    with r have n: "required_q_data s \<noteq> []" by auto
    with False Inr a r show ?thesis
      by (simp add: get_progress_percentage_def py_truediv_def Let_def)
  qed
qed

text \<open>
  The theorem at three objects: the only required question answered, not answered, and
  a catalogue without a required question (with a store that is not empty).
\<close>

theorem progress_percentage_witness:
  "valid_question_types (sys_config ex_answered)
   \<and> get_progress_percentage ex_answered = Inr 100
   \<and> valid_question_types (sys_config ex_system)
   \<and> get_progress_percentage ex_system = Inr 0
   \<and> valid_question_types (sys_config ex_no_required)
   \<and> required_q_data ex_no_required = []
   \<and> get_progress_percentage ex_no_required = Inr 100"
proof -
  have v: "valid_question_types (sys_config ex_answered)"
    "valid_question_types (sys_config ex_system)"
    "valid_question_types (sys_config ex_no_required)"
    by (simp_all add: ex_defs ex_no_required_def valid_question_types_def all_q_data_def
          phase_q_data_def)
  have r: "required_q_data ex_answered = [ex_q1]" "required_q_data ex_system = [ex_q1]"
    "required_q_data ex_no_required = []"
    by (simp_all add: ex_defs ex_no_required_def required_q_data_def all_q_data_def
          phase_q_data_def)
  have a: "answered_q_data ex_answered = [ex_q1]" "answered_q_data ex_system = []"
    by (simp_all add: answered_q_data_def r) (simp_all add: ex_defs)
  from progress_percentage [of ex_answered] v r a
  have 1: "get_progress_percentage ex_answered = Inr 100" by simp
  from progress_percentage [of ex_system] v r a
  have 2: "get_progress_percentage ex_system = Inr 0" by simp
  from progress_percentage [of ex_no_required] v r
  have 3: "get_progress_percentage ex_no_required = Inr 100" by simp
  from v r 1 2 3 show ?thesis by simp
qed

section \<open>Template matching: the four factors\<close>

lemmas match_defs = calculate_template_match_score_def style_match_def color_match_def
  functionality_match_def technical_compatibility_def get_list_def value_in_def
  lower_def lower_char_def ex_template_def

lemmas more_ex_defs = ex_lower_style_def ex_list_style_def ex_uncovered_def ex_other_def

lemma style_match_cases:
  "style_match s t =
     (if style_response_ok s then Inr (if style_triggered s t then 25 else 0)
      else Inl AttributeError)"
  by (simp add: style_match_def style_response_ok_def style_triggered_def
        split: option.splits pyval.splits)

lemma color_match_triggered:
  "color_match s t = (if factor_triggered s ''q1.3.2'' (t_color_schemes t) then 20 else 0)"
  by (simp add: color_match_def factor_triggered_def split: option.splits)

lemma functionality_match_triggered:
  "functionality_match s t =
     (if factor_triggered s ''q1.1.1'' (t_suitable_for t) then 30 else 0)"
  by (simp add: functionality_match_def factor_triggered_def split: option.splits)

lemma technical_compatibility_triggered:
  "technical_compatibility s t =
     (if factor_triggered s ''q2.2.1'' (t_compatible_versions t) then 25 else 0)"
  by (simp add: technical_compatibility_def factor_triggered_def split: option.splits)

lemma triggered_weights_range: "0 \<le> triggered_weights s t \<and> triggered_weights s t \<le> 100"
  by (simp add: triggered_weights_def)

lemma calculate_template_match_score_cases:
  "calculate_template_match_score s t =
     (if \<not> covers_categories (sys_config s) then Inl KeyError
      else if \<not> style_response_ok s then Inl AttributeError
      else Inr (min (triggered_weights s t) 100))"
  by (simp add: calculate_template_match_score_def calculate_profile_score_cases
        style_match_cases color_match_triggered functionality_match_triggered
        technical_compatibility_triggered triggered_weights_def)

lemma case_response_cong:
  "map_option ur_response m1 = map_option ur_response m2 \<Longrightarrow>
     (case m1 of None \<Rightarrow> x | Some u \<Rightarrow> f (ur_response u))
       = (case m2 of None \<Rightarrow> x | Some u \<Rightarrow> f (ur_response u))"
  by (cases m1; cases m2) simp_all

text \<open>
  Claim C2, as amended. For every template, and for every object whose configuration
  covers the six categories and whose response to \<open>q2.1.1\<close>, if there is one, is a
  string, \<open>calculate_template_match_score\<close> returns a score between \<open>0\<close> and \<open>100\<close>
  that is the capped sum of the four all-or-nothing weights 25 (style), 20 (colour), 30
  (functionality) and 25 (version); the cap never cuts. A designated response that is
  absent leaves its factor at \<open>0\<close>, and with an empty store the score is \<open>0\<close>.
\<close>

theorem match_score_bounded:
  assumes "covers_categories (sys_config s)" and "style_response_ok s"
  shows "\<exists>v. calculate_template_match_score s t = Inr v
           \<and> 0 \<le> v \<and> v \<le> 100
           \<and> v = min (triggered_weights s t) 100
           \<and> v = triggered_weights s t
           \<and> (map_of (user_responses s) ''q2.1.1'' = None \<longrightarrow> \<not> style_triggered s t)
           \<and> (\<forall>qid tags. map_of (user_responses s) qid = None
                  \<longrightarrow> \<not> factor_triggered s qid tags)
           \<and> (user_responses s = [] \<longrightarrow> v = 0)"
proof -
  have r: "0 \<le> triggered_weights s t" "triggered_weights s t \<le> 100"
    using triggered_weights_range by simp_all
  have e: "user_responses s = [] \<Longrightarrow> triggered_weights s t = 0"
    by (simp add: triggered_weights_def style_triggered_def factor_triggered_def)
  have a: "map_of (user_responses s) ''q2.1.1'' = None \<Longrightarrow> \<not> style_triggered s t"
    by (simp add: style_triggered_def)
  have b: "map_of (user_responses s) qid = None \<Longrightarrow> \<not> factor_triggered s qid tags"
    for qid tags by (simp add: factor_triggered_def)
  have "calculate_template_match_score s t = Inr (triggered_weights s t)"
    using assms r by (simp add: calculate_template_match_score_cases)
  with r e a b show ?thesis by auto
qed

text \<open>
  The theorem at \<open>ex_answered\<close>, where three of the four factors are triggered and the
  version response is absent, and at the empty store of \<open>ex_system\<close>.
\<close>

theorem match_score_bounded_witness:
  "covers_categories (sys_config ex_answered) \<and> style_response_ok ex_answered
   \<and> map_of (user_responses ex_answered) ''q2.2.1'' = None
   \<and> calculate_template_match_score ex_answered (ex_template ''T'' [''minimal'']) = Inr 75
   \<and> covers_categories (sys_config ex_system) \<and> style_response_ok ex_system
   \<and> user_responses ex_system = []
   \<and> calculate_template_match_score ex_system (ex_template ''T'' [''minimal'']) = Inr 0"
proof -
  have h: "covers_categories (sys_config ex_answered)" "style_response_ok ex_answered"
    "covers_categories (sys_config ex_system)" "style_response_ok ex_system"
    by (simp_all add: ex_defs covers_categories_def categories_def style_response_ok_def)
  have n: "map_of (user_responses ex_answered) ''q2.2.1'' = None"
    "user_responses ex_system = []"
    by (simp_all add: ex_defs)
  have w: "triggered_weights ex_answered (ex_template ''T'' [''minimal'']) = 75"
    by (simp add: triggered_weights_def style_triggered_def factor_triggered_def ex_defs
          get_list_def value_in_def lower_def lower_char_def ex_template_def)
  from match_score_bounded [OF h(1) h(2), of "ex_template ''T'' [''minimal'']"] w
  have 1: "calculate_template_match_score ex_answered (ex_template ''T'' [''minimal'']) = Inr 75"
    by auto
  from match_score_bounded [OF h(3) h(4), of "ex_template ''T'' [''minimal'']"] n(2)
  have 2: "calculate_template_match_score ex_system (ex_template ''T'' [''minimal'']) = Inr 0"
    by auto
  from h n 1 2 show ?thesis by simp
qed

text \<open>
  Without the two conditions the call raises: \<open>.lower()\<close> on a list of selections is an
  \<open>AttributeError\<close>, and a weight distribution that lacks a category is a \<open>KeyError\<close> in
  the profile scores that the method computes first, also with an empty store.
\<close>

theorem match_score_counterexample:
  "calculate_template_match_score ex_list_style (ex_template ''T'' [''minimal''])
     = Inl AttributeError
   \<and> user_responses ex_uncovered = []
   \<and> calculate_template_match_score ex_uncovered (ex_template ''T'' [''minimal''])
       = Inl KeyError"
  by (simp add: match_defs more_ex_defs ex_defs score_defs)

text \<open>
  Claim C6, as amended. The style factor is triggered exactly when a string response to
  \<open>q2.1.1\<close> is stored and its lower-cased value is one of the template's style tags as
  they are written; the tags themselves are not lower-cased. Triggered, the factor is
  \<open>25\<close> and adds exactly \<open>25\<close> to the score, otherwise it is \<open>0\<close>. In particular a
  response that differs only in letter case from a style tag written in lower case
  triggers the factor.
\<close>

theorem style_factor_trigger:
  "style_triggered s t =
     (\<exists>u r. map_of (user_responses s) ''q2.1.1'' = Some u \<and> ur_response u = VStr r
            \<and> lower r \<in> set (get_list (t_style_tags t)))
   \<and> (style_response_ok s \<longrightarrow>
         style_match s t = Inr (if style_triggered s t then 25 else 0))
   \<and> (covers_categories (sys_config s) \<and> style_response_ok s \<longrightarrow>
         calculate_template_match_score s t =
           Inr ((if style_triggered s t then 25 else 0) + color_match s t
                + functionality_match s t + technical_compatibility s t))
   \<and> (\<forall>u r tag. map_of (user_responses s) ''q2.1.1'' = Some u \<and> ur_response u = VStr r
         \<and> tag \<in> set (get_list (t_style_tags t)) \<and> lower tag = tag \<and> lower r = lower tag
         \<longrightarrow> style_triggered s t)"
proof -
  have c: "style_triggered s t =
     (\<exists>u r. map_of (user_responses s) ''q2.1.1'' = Some u \<and> ur_response u = VStr r
            \<and> lower r \<in> set (get_list (t_style_tags t)))"
    by (auto simp: style_triggered_def split: option.splits pyval.splits)
  have m: "style_response_ok s \<Longrightarrow>
      style_match s t = Inr (if style_triggered s t then 25 else 0)"
    by (simp add: style_match_cases)
  have r: "0 \<le> triggered_weights s t" "triggered_weights s t \<le> 100"
    using triggered_weights_range by simp_all
  have v: "covers_categories (sys_config s) \<and> style_response_ok s \<Longrightarrow>
      calculate_template_match_score s t =
           Inr ((if style_triggered s t then 25 else 0) + color_match s t
                + functionality_match s t + technical_compatibility s t)"
    using r by (simp add: calculate_template_match_score_cases triggered_weights_def
          color_match_triggered functionality_match_triggered
          technical_compatibility_triggered)
  have l: "style_triggered s t"
    if "map_of (user_responses s) ''q2.1.1'' = Some u \<and> ur_response u = VStr r
         \<and> tag \<in> set (get_list (t_style_tags t)) \<and> lower tag = tag \<and> lower r = lower tag"
    for u r tag
    using that unfolding c by auto
  from c m v l show ?thesis by blast
qed

text \<open>
  The theorem at \<open>ex_answered\<close>: the response \<open>Minimal\<close> against the tag \<open>minimal\<close>.
\<close>

theorem style_factor_trigger_witness:
  "style_response_ok ex_answered \<and> covers_categories (sys_config ex_answered)
   \<and> map_of (user_responses ex_answered) ''q2.1.1'' = Some (ex_response ''q2.1.1'' (VStr ''Minimal''))
   \<and> lower ''minimal'' = ''minimal'' \<and> lower ''Minimal'' = lower ''minimal''
   \<and> style_triggered ex_answered (ex_template ''T'' [''minimal''])
   \<and> style_match ex_answered (ex_template ''T'' [''minimal'']) = Inr 25
   \<and> calculate_template_match_score ex_answered (ex_template ''T'' [''minimal'']) = Inr 75"
proof -
  have h: "style_response_ok ex_answered" "covers_categories (sys_config ex_answered)"
    by (simp_all add: ex_defs covers_categories_def categories_def style_response_ok_def)
  have p: "map_of (user_responses ex_answered) ''q2.1.1''
             = Some (ex_response ''q2.1.1'' (VStr ''Minimal''))
           \<and> ur_response (ex_response ''q2.1.1'' (VStr ''Minimal'')) = VStr ''Minimal''
           \<and> ''minimal'' \<in> set (get_list (t_style_tags (ex_template ''T'' [''minimal''])))
           \<and> lower ''minimal'' = ''minimal'' \<and> lower ''Minimal'' = lower ''minimal''"
    by (simp add: ex_defs get_list_def ex_template_def lower_def lower_char_def)
  note f = style_factor_trigger [of ex_answered "ex_template ''T'' [''minimal'']"]
  from f p have t: "style_triggered ex_answered (ex_template ''T'' [''minimal''])"
    by blast
  from f h t have s: "style_match ex_answered (ex_template ''T'' [''minimal'']) = Inr 25"
    by simp
  have o: "color_match ex_answered (ex_template ''T'' [''minimal'']) = 20"
    "functionality_match ex_answered (ex_template ''T'' [''minimal'']) = 30"
    "technical_compatibility ex_answered (ex_template ''T'' [''minimal'']) = 0"
    by (simp_all add: match_defs ex_defs)
  from f h t o
  have "calculate_template_match_score ex_answered (ex_template ''T'' [''minimal'']) = Inr 75"
    by simp
  with h p t s show ?thesis by simp
qed

text \<open>
  The response \<open>minimal\<close> against the tag \<open>Minimal\<close>: the two differ only in letter
  case, and the factor is not triggered.
\<close>

theorem style_factor_counterexample:
  "map_of (user_responses ex_lower_style) ''q2.1.1''
     = Some (ex_response ''q2.1.1'' (VStr ''minimal''))
   \<and> t_style_tags (ex_template ''T'' [''Minimal'']) = Some [''Minimal'']
   \<and> lower ''minimal'' = lower ''Minimal''
   \<and> style_match ex_lower_style (ex_template ''T'' [''Minimal'']) = Inr 0
   \<and> calculate_template_match_score ex_lower_style (ex_template ''T'' [''Minimal'']) = Inr 0"
  by (simp add: match_defs more_ex_defs ex_defs score_defs)

text \<open>
  Claim C10. For every template, two objects of the same configuration whose stores
  agree on the responses stored (or absent) for \<open>q2.1.1\<close>, \<open>q1.3.2\<close>, \<open>q1.1.1\<close> and
  \<open>q2.2.1\<close> get the same result from \<open>calculate_template_match_score\<close>, exceptions
  included: no other response has an influence.
\<close>

theorem match_score_reads_designated_only:
  assumes cfg: "sys_config s1 = sys_config s2"
    and agree: "\<forall>k\<in>set designated_ids.
        map_option ur_response (map_of (user_responses s1) k)
          = map_option ur_response (map_of (user_responses s2) k)"
  shows "calculate_template_match_score s1 t = calculate_template_match_score s2 t"
proof -
  have a: "map_option ur_response (map_of (user_responses s1) k)
             = map_option ur_response (map_of (user_responses s2) k)"
    if "k \<in> set designated_ids" for k using agree that by blast
  have st: "style_triggered s1 t = style_triggered s2 t"
    unfolding style_triggered_def
    by (rule case_response_cong [OF a]) (simp add: designated_ids_def)
  have ok: "style_response_ok s1 = style_response_ok s2"
    unfolding style_response_ok_def
    by (rule case_response_cong [OF a]) (simp add: designated_ids_def)
  have f: "factor_triggered s1 k tags = factor_triggered s2 k tags"
    if "k \<in> set designated_ids" for k tags
    unfolding factor_triggered_def by (rule case_response_cong [OF a [OF that]])
  have w: "triggered_weights s1 t = triggered_weights s2 t"
    by (simp add: triggered_weights_def st f designated_ids_def)
  show ?thesis
    by (simp add: calculate_template_match_score_cases cfg ok w)
qed

text \<open>
  The theorem at \<open>ex_answered\<close> and \<open>ex_other\<close>, whose stores differ in order, in a
  timestamp and in the responses to other ids.
\<close>

theorem match_score_reads_designated_only_witness:
  "sys_config ex_answered = sys_config ex_other
   \<and> user_responses ex_answered \<noteq> user_responses ex_other
   \<and> map_of (user_responses ex_answered) ''q9.9.9'' \<noteq> map_of (user_responses ex_other) ''q9.9.9''
   \<and> calculate_template_match_score ex_answered (ex_template ''T'' [''minimal''])
       = calculate_template_match_score ex_other (ex_template ''T'' [''minimal''])
   \<and> calculate_template_match_score ex_other (ex_template ''T'' [''minimal'']) = Inr 75"
proof -
  have c: "sys_config ex_answered = sys_config ex_other"
    by (simp add: ex_defs more_ex_defs)
  have a: "\<forall>k\<in>set designated_ids.
        map_option ur_response (map_of (user_responses ex_answered) k)
          = map_option ur_response (map_of (user_responses ex_other) k)"
    by (simp add: designated_ids_def ex_defs more_ex_defs)
  have d: "user_responses ex_answered \<noteq> user_responses ex_other"
    "map_of (user_responses ex_answered) ''q9.9.9'' \<noteq> map_of (user_responses ex_other) ''q9.9.9''"
    by (simp_all add: ex_defs more_ex_defs)
  have v: "calculate_template_match_score ex_other (ex_template ''T'' [''minimal'']) = Inr 75"
    by (simp add: match_defs more_ex_defs ex_defs score_defs)
  from match_score_reads_designated_only [OF c a, of "ex_template ''T'' [''minimal'']"] c d v
  show ?thesis by simp
qed

section \<open>Recommendations: ranking\<close>

lemmas rec_defs = generate_recommendations_def mk_recommendation_def sort_by_score_desc_def Let_def
  ex_catalog_def

lemma traverse_Inr_rel:
  "traverse f xs = Inr ys \<Longrightarrow> list_all2 (\<lambda>x y. f x = Inr y) xs ys"
  by (induction xs arbitrary: ys) (auto split: sum.splits)

lemma traverse_total:
  "\<forall>x\<in>set xs. \<exists>y. f x = Inr y \<Longrightarrow> \<exists>ys. traverse f xs = Inr ys"
proof (induction xs)
  case Nil
  show ?case by simp
next
  case (Cons x xs)
  then obtain y ys where "f x = Inr y" "traverse f xs = Inr ys" by auto
  then show ?case by simp
qed

lemma mk_recommendation_total:
  "covers_categories (sys_config s) \<Longrightarrow> style_response_ok s \<Longrightarrow>
     \<exists>r. mk_recommendation s t = Inr r"
  by (simp add: mk_recommendation_def calculate_template_match_score_cases)

lemma mk_recommendation_recommendations:
  "mk_recommendation (s\<lparr>recommendations := rs\<rparr>) = mk_recommendation s"
  by (rule ext)
     (simp add: mk_recommendation_def calculate_template_match_score_cases
        style_response_ok_def triggered_weights_def style_triggered_def factor_triggered_def)

lemma sorted_by_score_desc:
  "sorted_wrt (\<lambda>a b. match_score b \<le> match_score a) (sort_by_score_desc recs)"
proof -
  have "sorted (map (\<lambda>x. - match_score x) (sort_by_score_desc recs))"
    unfolding sort_by_score_desc_def by (rule sorted_sort_key)
  then show ?thesis by (simp add: sorted_map)
qed

lemma sort_by_score_desc_stable:
  "filter (\<lambda>r. match_score r = k) (sort_by_score_desc recs)
     = filter (\<lambda>r. match_score r = k) recs"
proof -
  have e: "(\<lambda>r::TemplateRecommendation. match_score r = k) = (\<lambda>r. - match_score r = - k)"
    by (simp add: fun_eq_iff)
  show ?thesis unfolding e sort_by_score_desc_def by (rule sort_key_stable)
qed

text \<open>
  Claim C4, as amended. An empty catalogue yields an empty sequence, whatever the object.
  For every catalogue, and for every object whose configuration covers the six
  categories and whose response to \<open>q2.1.1\<close>, if there is one, is a string,
  \<open>generate_recommendations\<close> returns the first ten of the recommendations of the
  templates (one per template, in catalogue order) sorted by descending score: the
  result has \<open>min 10 |catalogue|\<close> entries, is in descending order of score, and the
  sort keeps recommendations of equal score in catalogue order. The catalogue is what
  it was, and calling again on the resulting object with the same catalogue returns the
  same sequence.
\<close>

theorem recommendations_ranked:
  "generate_recommendations s [] = Inr (s\<lparr>recommendations := []\<rparr>, [], [])
   \<and> (covers_categories (sys_config s) \<and> style_response_ok s \<longrightarrow>
        (\<exists>recs. list_all2 (\<lambda>t r. mk_recommendation s t = Inr r) tdb recs
           \<and> (let ranked = sort_by_score_desc recs;
                   s' = s\<lparr>recommendations := ranked\<rparr>;
                   out = take 10 ranked
               in generate_recommendations s tdb = Inr (s', tdb, out)
                  \<and> length out = min 10 (length tdb)
                  \<and> sorted_wrt (\<lambda>a b. match_score b \<le> match_score a) out
                  \<and> (\<forall>k. filter (\<lambda>r. match_score r = k) ranked
                            = filter (\<lambda>r. match_score r = k) recs)
                  \<and> generate_recommendations s' tdb = Inr (s', tdb, out))))"
proof -
  have empty: "generate_recommendations s [] = Inr (s\<lparr>recommendations := []\<rparr>, [], [])"
    by (simp add: generate_recommendations_def sort_by_score_desc_def)
  have main: "\<exists>recs. list_all2 (\<lambda>t r. mk_recommendation s t = Inr r) tdb recs
           \<and> (let ranked = sort_by_score_desc recs;
                   s' = s\<lparr>recommendations := ranked\<rparr>;
                   out = take 10 ranked
               in generate_recommendations s tdb = Inr (s', tdb, out)
                  \<and> length out = min 10 (length tdb)
                  \<and> sorted_wrt (\<lambda>a b. match_score b \<le> match_score a) out
                  \<and> (\<forall>k. filter (\<lambda>r. match_score r = k) ranked
                            = filter (\<lambda>r. match_score r = k) recs)
                  \<and> generate_recommendations s' tdb = Inr (s', tdb, out))"
    if h: "covers_categories (sys_config s)" "style_response_ok s"
  proof -
    from traverse_total [of tdb "mk_recommendation s"] mk_recommendation_total [OF h]
    obtain recs where t: "traverse (mk_recommendation s) tdb = Inr recs" by blast
    then have rel: "list_all2 (\<lambda>t r. mk_recommendation s t = Inr r) tdb recs"
      by (rule traverse_Inr_rel)
    then have len: "length recs = length tdb" by (simp add: list_all2_lengthD)
    let ?ranked = "sort_by_score_desc recs"
    have g: "generate_recommendations s tdb
               = Inr (s\<lparr>recommendations := ?ranked\<rparr>, tdb, take 10 ?ranked)"
      by (simp add: generate_recommendations_def t Let_def)
    have g': "generate_recommendations (s\<lparr>recommendations := ?ranked\<rparr>) tdb
               = Inr (s\<lparr>recommendations := ?ranked\<rparr>, tdb, take 10 ?ranked)"
      by (simp add: generate_recommendations_def mk_recommendation_recommendations t Let_def)
    have l: "length (take 10 ?ranked) = min 10 (length tdb)"
      by (simp add: sort_by_score_desc_def len min.commute)
    have so: "sorted_wrt (\<lambda>a b. match_score b \<le> match_score a) (take 10 ?ranked)"
      by (rule sorted_wrt_take) (rule sorted_by_score_desc)
    show ?thesis
      using rel g g' l so sort_by_score_desc_stable [of _ recs]
      unfolding Let_def by blast
  qed
  from empty main show ?thesis by blast
qed

text \<open>
  The theorem at \<open>ex_answered\<close> and a catalogue of three templates, of which the second
  scores 75 and the other two 50, and at a catalogue of twelve templates.
\<close>

theorem recommendations_ranked_witness:
  "covers_categories (sys_config ex_answered) \<and> style_response_ok ex_answered
   \<and> (\<exists>s' out. generate_recommendations ex_answered ex_catalog = Inr (s', ex_catalog, out)
         \<and> map template_name out = [''B'', ''A'', ''C'']
         \<and> map match_score out = [75, 50, 50]
         \<and> generate_recommendations s' ex_catalog = Inr (s', ex_catalog, out))
   \<and> (\<exists>s' out. generate_recommendations ex_answered (replicate 12 (ex_template ''T'' []))
                   = Inr (s', replicate 12 (ex_template ''T'' []), out)
         \<and> length out = 10)"
proof -
  have h: "covers_categories (sys_config ex_answered) \<and> style_response_ok ex_answered"
    by (simp add: ex_defs covers_categories_def categories_def style_response_ok_def)
  note a = recommendations_ranked [of ex_answered ex_catalog, unfolded Let_def]
  from a h obtain recs where
    g: "generate_recommendations ex_answered ex_catalog
          = Inr (ex_answered\<lparr>recommendations := sort_by_score_desc recs\<rparr>, ex_catalog,
                 take 10 (sort_by_score_desc recs))"
    and g': "generate_recommendations (ex_answered\<lparr>recommendations := sort_by_score_desc recs\<rparr>)
                ex_catalog
          = Inr (ex_answered\<lparr>recommendations := sort_by_score_desc recs\<rparr>, ex_catalog,
                 take 10 (sort_by_score_desc recs))"
    by blast
  have ev: "map template_name (snd (snd (projr (generate_recommendations ex_answered ex_catalog))))
              = [''B'', ''A'', ''C'']"
    "map match_score (snd (snd (projr (generate_recommendations ex_answered ex_catalog))))
              = [75, 50, 50]"
    by (simp_all add: rec_defs match_defs ex_defs score_defs)
  from ev g have n: "map template_name (take 10 (sort_by_score_desc recs)) = [''B'', ''A'', ''C'']"
    "map match_score (take 10 (sort_by_score_desc recs)) = [75, 50, 50]"
    by simp_all
  note b = recommendations_ranked [of ex_answered "replicate 12 (ex_template ''T'' [])",
      unfolded Let_def]
  from b h obtain recs' where
    r: "generate_recommendations ex_answered (replicate 12 (ex_template ''T'' []))
          = Inr (ex_answered\<lparr>recommendations := sort_by_score_desc recs'\<rparr>,
                 replicate 12 (ex_template ''T'' []), take 10 (sort_by_score_desc recs'))"
    and l: "length (take 10 (sort_by_score_desc recs'))
              = min 10 (length (replicate 12 (ex_template ''T'' [])))"
    by blast
  from l have l': "length (take 10 (sort_by_score_desc recs')) = 10" by simp
  have p: "\<exists>s' out. generate_recommendations ex_answered ex_catalog = Inr (s', ex_catalog, out)
         \<and> map template_name out = [''B'', ''A'', ''C'']
         \<and> map match_score out = [75, 50, 50]
         \<and> generate_recommendations s' ex_catalog = Inr (s', ex_catalog, out)"
    by (rule exI, rule exI, intro conjI, rule g, rule n(1), rule n(2), rule g')
  have q: "\<exists>s' out. generate_recommendations ex_answered (replicate 12 (ex_template ''T'' []))
                   = Inr (s', replicate 12 (ex_template ''T'' []), out)
         \<and> length out = 10"
    by (rule exI, rule exI, intro conjI, rule r, rule l')
  from h p q show ?thesis by (intro conjI) (elim conjE, assumption)+
qed

text \<open>
  With a catalogue that is not empty, a list of selections as the response to
  \<open>q2.1.1\<close>, or a weight distribution that lacks a category, makes the call raise.
\<close>

theorem recommendations_counterexample:
  "generate_recommendations ex_list_style ex_catalog = Inl AttributeError
   \<and> generate_recommendations ex_uncovered ex_catalog = Inl KeyError"
  by (simp add: rec_defs match_defs more_ex_defs ex_defs score_defs)

section \<open>Implementation plan: the timeline\<close>

lemma timeline_key_of_standard:
  "hashable v \<Longrightarrow> v \<noteq> VStr timeline_1day \<Longrightarrow> v \<noteq> VStr timeline_1month \<Longrightarrow>
     timeline_key_of v = Inr ''standard_timeline_1week''"
  by (cases v) (auto simp: timeline_key_of_def timeline_keys_def split: option.splits if_splits)

text \<open>
  Claim C3, as amended. When no response is stored for \<open>q5.1.1\<close>,
  \<open>generate_implementation_plan\<close> returns the defaulted timeline label and the
  experience level with no phases, no resources and no customization level: the roadmap
  is looked up under \<open>if timeline\<close> only. When a response is stored and its value is
  hashable and is neither the one-day nor the one-month label (so it is the one-week
  label or unrecognized), the phases, the resource and the customization level are those
  of the roadmap stored under \<open>standard_timeline_1week\<close>, with the defaults of the
  source for what that roadmap lacks.
\<close>

theorem implementation_plan_timeline:
  "(map_of (user_responses s) ''q5.1.1'' = None \<longrightarrow>
      generate_implementation_plan s =
        Inr \<lparr>plan_timeline = VStr timeline_1week,
             plan_experience_level =
               (case map_of (user_responses s) ''q5.1.2'' of
                  None \<Rightarrow> VStr experience_intermediate | Some e \<Rightarrow> ur_response e),
             plan_phases = [], plan_resources_needed = [], plan_estimated_hours = 0,
             plan_customization_level = None\<rparr>)
   \<and> (\<forall>t rm. map_of (user_responses s) ''q5.1.1'' = Some t \<and> hashable (ur_response t)
          \<and> ur_response t \<noteq> VStr timeline_1day \<and> ur_response t \<noteq> VStr timeline_1month
          \<and> lookup_roadmap (sys_config s) ''standard_timeline_1week'' = Inr rm \<longrightarrow>
        generate_implementation_plan s =
          Inr \<lparr>plan_timeline = ur_response t,
               plan_experience_level =
                 (case map_of (user_responses s) ''q5.1.2'' of
                    None \<Rightarrow> VStr experience_intermediate | Some e \<Rightarrow> ur_response e),
               plan_phases = roadmap_steps rm,
               plan_resources_needed = [roadmap_resources rm], plan_estimated_hours = 0,
               plan_customization_level = Some (roadmap_customization_level rm)\<rparr>)"
  by (auto simp: generate_implementation_plan_def timeline_key_of_standard)

text \<open>
  The theorem at the empty store of \<open>ex_system\<close> and at \<open>ex_unrecognized\<close>, whose
  timeline response is \<open>2 weeks\<close>.
\<close>

theorem implementation_plan_timeline_witness:
  "map_of (user_responses ex_system) ''q5.1.1'' = None
   \<and> generate_implementation_plan ex_system =
        Inr \<lparr>plan_timeline = VStr timeline_1week,
             plan_experience_level = VStr experience_intermediate,
             plan_phases = [], plan_resources_needed = [], plan_estimated_hours = 0,
             plan_customization_level = None\<rparr>
   \<and> map_of (user_responses ex_unrecognized) ''q5.1.1''
        = Some (ex_response ''q5.1.1'' (VStr ''2 weeks''))
   \<and> generate_implementation_plan ex_unrecognized =
        Inr \<lparr>plan_timeline = VStr ''2 weeks'',
             plan_experience_level = VStr experience_intermediate,
             plan_phases = [''plan'', ''draft'', ''polish''],
             plan_resources_needed = [''designer''], plan_estimated_hours = 0,
             plan_customization_level = Some ''high''\<rparr>"
proof -
  have n: "map_of (user_responses ex_system) ''q5.1.1'' = None"
    "map_of (user_responses ex_system) ''q5.1.2'' = None"
    by (simp_all add: ex_defs)
  have u: "map_of (user_responses ex_unrecognized) ''q5.1.1''
             = Some (ex_response ''q5.1.1'' (VStr ''2 weeks''))"
    "map_of (user_responses ex_unrecognized) ''q5.1.2'' = None"
    by (simp_all add: ex_unrecognized_def ex_defs)
  have v: "ur_response (ex_response ''q5.1.1'' (VStr ''2 weeks'')) = VStr ''2 weeks''"
    "hashable (VStr ''2 weeks'')" "VStr ''2 weeks'' \<noteq> VStr timeline_1day"
    "VStr ''2 weeks'' \<noteq> VStr timeline_1month"
    by (simp_all add: ex_response_def timeline_1day_def timeline_1month_def)
  have r: "lookup_roadmap (sys_config ex_unrecognized) ''standard_timeline_1week''
             = Inr (Some \<lparr>rm_steps = Some [''plan'', ''draft'', ''polish''],
                         rm_resources = Some ''designer'',
                         rm_customization_level = Some ''high''\<rparr>)"
    by (simp add: lookup_roadmap_def py_index_def ex_unrecognized_def ex_defs)
  note a = implementation_plan_timeline [of ex_system, THEN conjunct1, rule_format, OF n(1)]
  note b = implementation_plan_timeline [of ex_unrecognized, THEN conjunct2, rule_format,
      of "ex_response ''q5.1.1'' (VStr ''2 weeks'')" "Some \<lparr>rm_steps = Some [''plan'', ''draft'', ''polish''],
                         rm_resources = Some ''designer'',
                         rm_customization_level = Some ''high''\<rparr>"]
  from a n have 1: "generate_implementation_plan ex_system =
        Inr \<lparr>plan_timeline = VStr timeline_1week,
             plan_experience_level = VStr experience_intermediate,
             plan_phases = [], plan_resources_needed = [], plan_estimated_hours = 0,
             plan_customization_level = None\<rparr>" by simp
  from b u v r have 2: "generate_implementation_plan ex_unrecognized =
        Inr \<lparr>plan_timeline = VStr ''2 weeks'',
             plan_experience_level = VStr experience_intermediate,
             plan_phases = [''plan'', ''draft'', ''polish''],
             plan_resources_needed = [''designer''], plan_estimated_hours = 0,
             plan_customization_level = Some ''high''\<rparr>"
    by (simp add: roadmap_steps_def roadmap_resources_def roadmap_customization_level_def
          get_list_def)
  from n(1) 1 u(1) 2 show ?thesis by (intro conjI)
qed

text \<open>
  With no timeline response the plan has no phases, although the configuration has a
  standard roadmap of three steps.
\<close>

theorem implementation_plan_counterexample:
  "map_of (user_responses ex_system) ''q5.1.1'' = None
   \<and> lookup_roadmap (sys_config ex_system) ''standard_timeline_1week''
        = Inr (Some \<lparr>rm_steps = Some [''plan'', ''draft'', ''polish''],
                     rm_resources = Some ''designer'',
                     rm_customization_level = Some ''high''\<rparr>)
   \<and> generate_implementation_plan ex_system =
        Inr \<lparr>plan_timeline = VStr timeline_1week,
             plan_experience_level = VStr experience_intermediate,
             plan_phases = [], plan_resources_needed = [], plan_estimated_hours = 0,
             plan_customization_level = None\<rparr>"
  by (simp add: generate_implementation_plan_def lookup_roadmap_def py_index_def ex_defs)

section \<open>Questions by phase: the index\<close>

text \<open>
  Claim C5 on the code. \<open>get_questions_by_phase\<close> reads
  \<open>workflow_phases[phase_id - 1]\<close>, and a negative subscript of a Python list counts
  from the end: with five phases, phase \<open>0\<close> is answered with the questions of phase 5
  and phase \<open>-4\<close> with those of phase 1, where the claim asks for an out-of-range
  error; only an index past the last phase, or below \<open>1 - n\<close>, raises \<open>IndexError\<close>.
\<close>

theorem questions_by_phase_zero:
  "length (workflow_phases (sys_config ex_system)) = 5
   \<and> get_questions_by_phase ex_system 0 = get_questions_by_phase ex_system 5
   \<and> get_questions_by_phase ex_system (- 4) = get_questions_by_phase ex_system 1
   \<and> get_questions_by_phase ex_system 6 = Inl IndexError
   \<and> get_questions_by_phase ex_system (- 5) = Inl IndexError
   \<and> length (workflow_phases (sys_config ex_no_required)) = 1
   \<and> get_questions_by_phase ex_no_required 0 =
        Inr [\<lparr>q_question_id = ''q1.2.1'', q_question_text = ''audience'',
              q_question_type = TEXT, q_required = False, q_weight = 6, q_options = None,
              q_follow_up = None, q_placeholder = None\<rparr>]"
  by (simp add: get_questions_by_phase_def py_index_def phase_q_data_def mk_question_def
        QuestionType_of_def ex_no_required_def ex_defs)

section \<open>What the consumers read and what they keep\<close>

lemma score_response_reads_config:
  assumes h: "sys_config s1 = sys_config s2"
  shows "score_response s1 = score_response s2"
  unfolding score_response_def [abs_def] find_question_def h ..

lemma profile_score_reads:
  assumes c: "sys_config s1 = sys_config s2" and u: "user_responses s1 = user_responses s2"
  shows "calculate_profile_score s1 = calculate_profile_score s2"
  unfolding calculate_profile_score_def score_response_reads_config [OF c] c u ..

lemma match_score_reads:
  assumes c: "sys_config s1 = sys_config s2" and u: "user_responses s1 = user_responses s2"
  shows "calculate_template_match_score s1 t = calculate_template_match_score s2 t"
  unfolding calculate_template_match_score_def style_match_def color_match_def
    functionality_match_def technical_compatibility_def profile_score_reads [OF c u] u ..

lemma mk_recommendation_reads:
  assumes c: "sys_config s1 = sys_config s2" and u: "user_responses s1 = user_responses s2"
  shows "mk_recommendation s1 = mk_recommendation s2"
  unfolding mk_recommendation_def [abs_def] match_score_reads [OF c u] ..

lemma ex_after_recs_eval:
  "ex_after_recs = ex_answered\<lparr>recommendations :=
     [\<lparr>template_name = ''B'', template_url = ''https://example.com/t'', match_score = 75,
       style_tags = [''minimal''], pros = [], cons = [],
       customization_difficulty = ''medium'', preview_image = None\<rparr>,
      \<lparr>template_name = ''A'', template_url = ''https://example.com/t'', match_score = 50,
       style_tags = [''modern''], pros = [], cons = [],
       customization_difficulty = ''medium'', preview_image = None\<rparr>,
      \<lparr>template_name = ''C'', template_url = ''https://example.com/t'', match_score = 50,
       style_tags = [''classic''], pros = [], cons = [],
       customization_difficulty = ''medium'', preview_image = None\<rparr>]\<rparr>"
  by (simp add: ex_after_recs_def rec_defs match_defs ex_defs score_defs)

text \<open>
  Claim C7, as amended. The profile scores, the match score and the implementation plan
  are functions of the configuration and the response store, and so is what
  \<open>generate_recommendations\<close> returns for a catalogue. That method also keeps its whole
  ranking in the field \<open>recommendations\<close> of the object, the only field it changes; and
  the recommendations of \<open>export_user_profile\<close> are the first five of that field, not a
  new ranking: the export is a function of the configuration, the store, the clock and
  the field \<open>recommendations\<close>.
\<close>

theorem consumers_read_config_and_store:
  "(sys_config s1 = sys_config s2 \<and> user_responses s1 = user_responses s2 \<longrightarrow>
      calculate_profile_score s1 = calculate_profile_score s2
      \<and> calculate_template_match_score s1 t = calculate_template_match_score s2 t
      \<and> generate_implementation_plan s1 = generate_implementation_plan s2
      \<and> map_sum id (\<lambda>r. snd r) (generate_recommendations s1 tdb)
           = map_sum id (\<lambda>r. snd r) (generate_recommendations s2 tdb)
      \<and> (recommendations s1 = recommendations s2 \<longrightarrow>
            export_user_profile s1 now_id now_iso = export_user_profile s2 now_id now_iso))
   \<and> (\<forall>s' c out. generate_recommendations s1 tdb = Inr (s', c, out) \<longrightarrow>
          s' = s1\<lparr>recommendations := recommendations s'\<rparr> \<and> c = tdb
          \<and> out = take 10 (recommendations s'))
   \<and> (\<forall>p. export_user_profile s1 now_id now_iso = Inr p \<longrightarrow>
          profile_recommendations p =
            map (\<lambda>r. \<lparr>rec_name = template_name r, rec_url = template_url r,
                       rec_score = match_score r\<rparr>) (take 5 (recommendations s1)))"
proof -
  have A: "sys_config s1 = sys_config s2 \<and> user_responses s1 = user_responses s2 \<longrightarrow>
      calculate_profile_score s1 = calculate_profile_score s2
      \<and> calculate_template_match_score s1 t = calculate_template_match_score s2 t
      \<and> generate_implementation_plan s1 = generate_implementation_plan s2
      \<and> map_sum id (\<lambda>r. snd r) (generate_recommendations s1 tdb)
           = map_sum id (\<lambda>r. snd r) (generate_recommendations s2 tdb)
      \<and> (recommendations s1 = recommendations s2 \<longrightarrow>
            export_user_profile s1 now_id now_iso = export_user_profile s2 now_id now_iso)"
  proof
    assume h: "sys_config s1 = sys_config s2 \<and> user_responses s1 = user_responses s2"
    from h have c: "sys_config s1 = sys_config s2" and u: "user_responses s1 = user_responses s2"
      by simp_all
    have 1: "calculate_profile_score s1 = calculate_profile_score s2"
      using c u by (rule profile_score_reads)
    have 2: "calculate_template_match_score s1 t = calculate_template_match_score s2 t"
      using c u by (rule match_score_reads)
    have 3: "generate_implementation_plan s1 = generate_implementation_plan s2"
      unfolding generate_implementation_plan_def c u ..
    have "traverse (mk_recommendation s1) tdb = traverse (mk_recommendation s2) tdb"
      unfolding mk_recommendation_reads [OF c u] ..
    then have 4: "map_sum id (\<lambda>r. snd r) (generate_recommendations s1 tdb)
           = map_sum id (\<lambda>r. snd r) (generate_recommendations s2 tdb)"
      by (cases "traverse (mk_recommendation s2) tdb")
         (simp_all add: generate_recommendations_def Let_def)
    have 5: "recommendations s1 = recommendations s2 \<longrightarrow>
            export_user_profile s1 now_id now_iso = export_user_profile s2 now_id now_iso"
    proof
      assume r: "recommendations s1 = recommendations s2"
      show "export_user_profile s1 now_id now_iso = export_user_profile s2 now_id now_iso"
        unfolding export_user_profile_def 1 u r ..
    qed
    show "calculate_profile_score s1 = calculate_profile_score s2
      \<and> calculate_template_match_score s1 t = calculate_template_match_score s2 t
      \<and> generate_implementation_plan s1 = generate_implementation_plan s2
      \<and> map_sum id (\<lambda>r. snd r) (generate_recommendations s1 tdb)
           = map_sum id (\<lambda>r. snd r) (generate_recommendations s2 tdb)
      \<and> (recommendations s1 = recommendations s2 \<longrightarrow>
            export_user_profile s1 now_id now_iso = export_user_profile s2 now_id now_iso)"
      by (rule conjI [OF 1 conjI [OF 2 conjI [OF 3 conjI [OF 4 5]]]])
  qed
  have B: "\<forall>s' c out. generate_recommendations s1 tdb = Inr (s', c, out) \<longrightarrow>
          s' = s1\<lparr>recommendations := recommendations s'\<rparr> \<and> c = tdb
          \<and> out = take 10 (recommendations s')"
    by (cases "traverse (mk_recommendation s1) tdb")
       (auto simp: generate_recommendations_def Let_def)
  have C: "\<forall>p. export_user_profile s1 now_id now_iso = Inr p \<longrightarrow>
          profile_recommendations p =
            map (\<lambda>r. \<lparr>rec_name = template_name r, rec_url = template_url r,
                       rec_score = match_score r\<rparr>) (take 5 (recommendations s1))"
    by (cases "calculate_profile_score s1") (auto simp: export_user_profile_def)
  show ?thesis by (rule conjI [OF A conjI [OF B C]])
qed

text \<open>
  The theorem at \<open>ex_answered\<close> and the object that \<open>generate_recommendations\<close> makes of
  it, and, for the export, at two objects that differ in \<open>current_phase\<close> only.
\<close>

theorem consumers_read_config_and_store_witness:
  "sys_config ex_answered = sys_config ex_after_recs
   \<and> user_responses ex_answered = user_responses ex_after_recs
   \<and> calculate_profile_score ex_answered = calculate_profile_score ex_after_recs
   \<and> calculate_template_match_score ex_answered (ex_template ''T'' [''minimal''])
        = calculate_template_match_score ex_after_recs (ex_template ''T'' [''minimal''])
   \<and> generate_implementation_plan ex_answered = generate_implementation_plan ex_after_recs
   \<and> map_sum id (\<lambda>r. snd r) (generate_recommendations ex_answered ex_catalog)
        = map_sum id (\<lambda>r. snd r) (generate_recommendations ex_after_recs ex_catalog)
   \<and> generate_recommendations ex_answered ex_catalog
        = Inr (ex_after_recs, ex_catalog, take 10 (recommendations ex_after_recs))
   \<and> ex_after_recs = ex_answered\<lparr>recommendations := recommendations ex_after_recs\<rparr>
   \<and> recommendations ex_after_recs = recommendations (ex_after_recs\<lparr>current_phase := 2\<rparr>)
   \<and> export_user_profile ex_after_recs ''p'' ''t''
        = export_user_profile (ex_after_recs\<lparr>current_phase := 2\<rparr>) ''p'' ''t''"
proof -
  have h: "sys_config ex_answered = sys_config ex_after_recs
             \<and> user_responses ex_answered = user_responses ex_after_recs"
    by (simp add: ex_after_recs_eval)
  have g: "generate_recommendations ex_answered ex_catalog
        = Inr (ex_after_recs, ex_catalog, take 10 (recommendations ex_after_recs))"
    by (simp add: ex_after_recs_eval) (simp add: rec_defs match_defs ex_defs score_defs)
  note a = consumers_read_config_and_store [of ex_answered ex_after_recs
      "ex_template ''T'' [''minimal'']" ex_catalog "''p''" "''t''"]
  note a1 = a [THEN conjunct1, rule_format, OF h]
  note a2 = a [THEN conjunct2, THEN conjunct1, rule_format, OF g, THEN conjunct1]
  have k: "sys_config ex_after_recs = sys_config (ex_after_recs\<lparr>current_phase := 2\<rparr>)
             \<and> user_responses ex_after_recs
                 = user_responses (ex_after_recs\<lparr>current_phase := 2\<rparr>)"
    by simp
  have r: "recommendations ex_after_recs = recommendations (ex_after_recs\<lparr>current_phase := 2\<rparr>)"
    by simp
  note b = consumers_read_config_and_store [of ex_after_recs
      "ex_after_recs\<lparr>current_phase := 2\<rparr>" "ex_template ''T'' [''minimal'']" ex_catalog
      "''p''" "''t''", THEN conjunct1, rule_format, OF k]
  note b5 = b [THEN conjunct2, THEN conjunct2, THEN conjunct2, THEN conjunct2, rule_format, OF r]
  show ?thesis
    by (rule conjI [OF h [THEN conjunct1] conjI [OF h [THEN conjunct2]
          conjI [OF a1 [THEN conjunct1] conjI [OF a1 [THEN conjunct2, THEN conjunct1]
          conjI [OF a1 [THEN conjunct2, THEN conjunct2, THEN conjunct1]
          conjI [OF a1 [THEN conjunct2, THEN conjunct2, THEN conjunct2, THEN conjunct1]
          conjI [OF g conjI [OF a2 conjI [OF r b5]]]]]]]]])
qed

text \<open>
  Two objects of the same configuration and store export different recommendations; and
  after a new response to \<open>q2.1.1\<close> the export still lists the ranking computed before
  it, \<open>B, A, C\<close>, where a new ranking gives \<open>C, A, B\<close>.
\<close>

theorem consumers_counterexample:
  "sys_config ex_after_recs = sys_config ex_answered
   \<and> user_responses ex_after_recs = user_responses ex_answered
   \<and> profile_recommendations (projr (export_user_profile ex_answered ''p'' ''t'')) = []
   \<and> map rec_name (profile_recommendations
         (projr (export_user_profile ex_after_recs ''p'' ''t''))) = [''B'', ''A'', ''C'']
   \<and> map rec_name (profile_recommendations
         (projr (export_user_profile ex_after_change ''p'' ''t''))) = [''B'', ''A'', ''C'']
   \<and> map template_name (snd (snd (projr
         (generate_recommendations ex_after_change ex_catalog)))) = [''C'', ''A'', ''B'']"
  by (simp add: ex_after_recs_eval ex_after_change_def export_user_profile_def
        submit_response_def rec_defs match_defs ex_defs score_defs)

end
